theory Spec2Isabelle
  imports Complex_Main "HOL-Library.Multiset"
begin

section \<open>Time\<close>

text \<open>
  A naive \<^verbatim>\<open>datetime\<close> is the number of microseconds since midnight of day one of the
  calendar, a \<^verbatim>\<open>timedelta\<close> a (possibly negative) number of microseconds. Python keeps
  both exact at this resolution. The library's range limits (year 9999, one thousand
  million days) are not part of the model: the time line is unbounded.
\<close>

type_synonym datetime = int
type_synonym timedelta = int

definition timedelta_seconds :: "int \<Rightarrow> timedelta" where
  "timedelta_seconds n = n * 1000000"

definition timedelta_minutes :: "int \<Rightarrow> timedelta" where
  "timedelta_minutes n = n * 60000000"

definition timedelta_hours :: "int \<Rightarrow> timedelta" where
  "timedelta_hours n = n * 3600000000"

definition timedelta_days :: "int \<Rightarrow> timedelta" where
  "timedelta_days n = n * 86400000000"

text \<open>The \<^verbatim>\<open>.days\<close> attribute: a timedelta is normalised with the day count rounded down.\<close>

definition days_of :: "timedelta \<Rightarrow> int" where
  "days_of d = d div 86400000000"

section \<open>Errors\<close>

datatype error =
    ValueError string
  | KeyError string
  | SubscriptionError string
  | InsufficientFundsError string
  | PaymentProcessingError string
  | DivisionByZero
  | InvalidOperation
  | Overflow
  | AttributeError string
  | NotFound string
  | OtherError string

section \<open>Task scheduler (scheduler/task\_scheduler.py)\<close>

text \<open>
  \<^verbatim>\<open>schedule_params\<close> is a dictionary holding either \<^verbatim>\<open>hour\<close> and \<^verbatim>\<open>minute\<close> or
  \<^verbatim>\<open>interval\<close>. The callable of a task is not part of the bookkeeping and is left out;
  so is the registry of the \<^verbatim>\<open>schedule\<close> library, which the class only writes to.
\<close>

datatype schedule_params =
    DailyParams int int
  | IntervalParams timedelta

record scheduled_task =
  task_id :: string
  schedule_type :: string
  schedule_params :: schedule_params
  last_run :: "datetime option"
  next_run :: "datetime option"
  is_active :: bool

type_synonym task_table = "string \<rightharpoonup> scheduled_task"

text \<open>
  \<^verbatim>\<open>schedule_recurring_task\<close>: the unit is chosen from \<^verbatim>\<open>interval.total_seconds()\<close>, the
  task is stored with the interval as its parameter and \<^verbatim>\<open>next_run = now + interval\<close>.
  The identifier (a fresh UUID in the source) is an argument.
\<close>

definition schedule_recurring_task ::
  "string \<Rightarrow> timedelta \<Rightarrow> datetime \<Rightarrow> task_table \<Rightarrow> string \<times> task_table" where
  "schedule_recurring_task tid interval now tasks =
     (let stype =
            (if interval < timedelta_seconds 60 then ''seconds''
             else if interval < timedelta_seconds 3600 then ''minutes''
             else if interval < timedelta_seconds 86400 then ''hours''
             else ''days'');
          scheduled =
            \<lparr> task_id = tid, schedule_type = stype,
              schedule_params = IntervalParams interval,
              last_run = None, next_run = Some (now + interval), is_active = True \<rparr>
      in (tid, tasks(tid \<mapsto> scheduled)))"

definition should_run_task :: "string \<Rightarrow> task_table \<Rightarrow> bool" where
  "should_run_task tid tasks =
     (case tasks tid of None \<Rightarrow> False | Some t \<Rightarrow> is_active t)"

text \<open>
  \<^verbatim>\<open>_calculate_next_run\<close>: today's date at \<^verbatim>\<open>hour:minute\<close>, or tomorrow's when that has
  passed. The \<^verbatim>\<open>datetime\<close> constructor raises for an hour or minute out of range.
\<close>

definition calculate_next_run :: "int \<Rightarrow> int \<Rightarrow> datetime \<Rightarrow> error + datetime" where
  "calculate_next_run hour minute now =
     (if hour < 0 \<or> 23 < hour then Inl (ValueError ''hour must be in 0..23'')
      else if minute < 0 \<or> 59 < minute then Inl (ValueError ''minute must be in 0..59'')
      else
        (let next_run = timedelta_days (days_of now) + timedelta_hours hour
                          + timedelta_minutes minute
         in Inr (if next_run < now then next_run + timedelta_days 1 else next_run)))"

definition interval_map :: "(string \<times> timedelta) list" where
  "interval_map =
     [(''seconds'', timedelta_seconds 1), (''minutes'', timedelta_minutes 1),
      (''hours'', timedelta_hours 1), (''days'', timedelta_days 1)]"

definition calculate_next_task_run ::
  "scheduled_task \<Rightarrow> datetime \<Rightarrow> error + datetime option" where
  "calculate_next_task_run task now =
     (if schedule_type task = ''daily'' then
        (case schedule_params task of
           DailyParams h m \<Rightarrow>
             (case calculate_next_run h m now of
                Inl e \<Rightarrow> Inl e | Inr d \<Rightarrow> Inr (Some d))
         | IntervalParams i \<Rightarrow> Inl (KeyError ''hour''))
      else if schedule_type task \<in> set [''seconds'', ''minutes'', ''hours'', ''days''] then
        (case last_run task of
           Some lr \<Rightarrow>
             Inr (Some (lr + (case map_of interval_map (schedule_type task) of
                                Some d \<Rightarrow> d | None \<Rightarrow> timedelta_days 1)))
         | None \<Rightarrow> Inr None)
      else Inr None)"

text \<open>
  \<^verbatim>\<open>_wrap_task\<close>. The outcome of running the callable (normal return, or an exception,
  which includes the five minute timeout) is an argument, and so are the two readings
  of the clock: \<open>now\<close> for \<^verbatim>\<open>last_run\<close> and \<open>now'\<close> inside \<^verbatim>\<open>_calculate_next_run\<close>.
  \<^verbatim>\<open>last_run\<close> is assigned before \<^verbatim>\<open>next_run\<close> is computed, so it stays assigned when
  that computation raises; every exception is swallowed by the handler.
\<close>

datatype task_outcome = TaskReturned | TaskRaised string

definition wrap_task ::
  "string \<Rightarrow> task_outcome \<Rightarrow> datetime \<Rightarrow> datetime \<Rightarrow> task_table \<Rightarrow> task_table" where
  "wrap_task tid outcome now now' tasks =
     (if \<not> should_run_task tid tasks then tasks
      else
        (case outcome of
           TaskRaised msg \<Rightarrow> tasks
         | TaskReturned \<Rightarrow>
             (case tasks tid of
                None \<Rightarrow> tasks
              | Some t \<Rightarrow>
                  (let t1 = t\<lparr>last_run := Some now\<rparr>
                   in case calculate_next_task_run t1 now' of
                        Inl e \<Rightarrow> tasks(tid \<mapsto> t1)
                      | Inr nr \<Rightarrow> tasks(tid \<mapsto> t1\<lparr>next_run := nr\<rparr>)))))"

text \<open>The bookkeeping of one interval task: scheduled at \<open>t0\<close>, first run completed at \<open>t1\<close>.\<close>

definition interval_task_after_run ::
  "timedelta \<Rightarrow> datetime \<Rightarrow> datetime \<Rightarrow> scheduled_task option" where
  "interval_task_after_run interval t0 t1 =
     (let (tid, tasks) = schedule_recurring_task ''job'' interval t0 Map.empty
      in wrap_task tid TaskReturned t1 t1 tasks tid)"

section \<open>Payment gateway (payment/gateways)\<close>

text \<open>
  What \<^verbatim>\<open>_make_request\<close> hands to the HTTP library. The provider's answer is outside
  the program. \<^verbatim>\<open>_get_headers\<close> reads the clock; the text
  \<^verbatim>\<open>str(datetime.now().timestamp())\<close> it obtains is the argument \<open>now_stamp\<close>.
\<close>

record 'a http_request =
  req_method :: string
  req_url :: string
  req_json :: "'a option"
  req_headers :: "(string \<times> string) list"

definition get_base_url :: "bool \<Rightarrow> string" where
  "get_base_url is_test =
     (if is_test then ''https://api.yookassa.ru/v3'' else ''https://api.yookassa.ru/v3'')"

definition get_headers :: "string \<Rightarrow> string \<Rightarrow> (string \<times> string) list" where
  "get_headers api_key now_stamp =
     [(''Authorization'', ''Basic '' @ api_key),
      (''Idempotence-Key'', now_stamp),
      (''Content-Type'', ''application/json'')]"

definition make_request ::
  "string \<Rightarrow> bool \<Rightarrow> string \<Rightarrow> string \<Rightarrow> string \<Rightarrow> 'a option \<Rightarrow> 'a http_request" where
  "make_request api_key is_test now_stamp method endpoint data =
     \<lparr> req_method = method,
       req_url = get_base_url is_test @ ''/'' @ endpoint,
       req_json = data,
       req_headers = get_headers api_key now_stamp \<rparr>"

text \<open>
  The body of a charge. \<open>amount_text\<close> is \<^verbatim>\<open>str(amount.amount)\<close>, the decimal as the
  caller wrote it.
\<close>

record payment_data =
  pd_amount_value :: string
  pd_amount_currency :: string
  pd_payment_method_id :: string
  pd_capture :: bool
  pd_description :: string
  pd_metadata_user_id :: string

definition charge_request ::
  "string \<Rightarrow> bool \<Rightarrow> string \<Rightarrow> string \<Rightarrow> string \<Rightarrow> string \<Rightarrow> string
     \<Rightarrow> payment_data http_request" where
  "charge_request api_key is_test now_stamp amount_text currency method_id customer_id =
     make_request api_key is_test now_stamp ''POST'' ''payments''
       (Some \<lparr> pd_amount_value = amount_text, pd_amount_currency = currency,
                pd_payment_method_id = method_id, pd_capture = True,
                pd_description = ''Payment for user '' @ customer_id,
                pd_metadata_user_id = customer_id \<rparr>)"

definition idempotence_key :: "'a http_request \<Rightarrow> string option" where
  "idempotence_key r = map_of (req_headers r) ''Idempotence-Key''"

section \<open>Decimal numbers\<close>

text \<open>
  A finite \<^verbatim>\<open>Decimal\<close> is modelled by its value, a rational number. Under Python's
  default context every arithmetic operation returns the exact result rounded to 28
  significant digits, ties to the even digit; operands, also integers, enter an
  operation unrounded. The type \<open>decimal\<close> and the operations \<open>dec_add\<close> to \<open>dec_div\<close>
  are those of the prices, which are values of \<^verbatim>\<open>Numeric(10, 2)\<close> columns: finite, and so
  far inside the exponent range of the context that its limits play no role. The
  amounts of Money are any \<^verbatim>\<open>Decimal\<close>; their arithmetic, with the special values and
  the exponent limits, follows further down.
\<close>

type_synonym decimal = rat

function digits10 :: "int \<Rightarrow> nat" where
  "digits10 n = (if n < 10 then 1 else Suc (digits10 (n div 10)))"
  by pat_completeness auto
termination
  by (relation "measure nat") auto

definition round_half_even :: "rat \<Rightarrow> int" where
  "round_half_even r =
     (let f = \<lfloor>r\<rfloor>; d = r - of_int f
      in if d < 1 / 2 then f else if 1 / 2 < d then f + 1
         else if even f then f else f + 1)"

definition pow10 :: "int \<Rightarrow> rat" where
  "pow10 e = (if 0 \<le> e then 10 ^ nat e else 1 / 10 ^ nat (- e))"

text \<open>The exponent of the leading digit of a positive number.\<close>

definition adjusted :: "rat \<Rightarrow> int" where
  "adjusted x =
     (let (a, b) = quotient_of x;
          d = int (digits10 a) - int (digits10 b)
      in if pow10 d \<le> x then d else d - 1)"

definition round28 :: "rat \<Rightarrow> decimal" where
  "round28 x =
     (if x = 0 then 0
      else let e = adjusted \<bar>x\<bar> - 27;
               q = round_half_even (\<bar>x\<bar> / pow10 e)
           in sgn x * of_int q * pow10 e)"

definition dec_add :: "decimal \<Rightarrow> decimal \<Rightarrow> decimal" where
  "dec_add a b = round28 (a + b)"

definition dec_sub :: "decimal \<Rightarrow> decimal \<Rightarrow> decimal" where
  "dec_sub a b = round28 (a - b)"

definition dec_mul :: "decimal \<Rightarrow> decimal \<Rightarrow> decimal" where
  "dec_mul a b = round28 (a * b)"

text \<open>Division by zero raises: \<^verbatim>\<open>InvalidOperation\<close> for 0/0, \<^verbatim>\<open>DivisionByZero\<close> otherwise.\<close>

definition dec_div :: "decimal \<Rightarrow> decimal \<Rightarrow> error + decimal" where
  "dec_div a b =
     (if b = 0 then (if a = 0 then Inl InvalidOperation else Inl DivisionByZero)
      else Inr (round28 (a / b)))"

section \<open>Decimal values in full\<close>

text \<open>
  A \<^verbatim>\<open>Decimal\<close> is a finite number, an infinity, or a quiet or signalling NaN. A
  negative zero has the value of zero and is the finite number 0. The default context
  has a precision of 28 digits, \<^verbatim>\<open>Emax = 999999\<close> and \<^verbatim>\<open>Emin = -999999\<close>, and traps
  \<^verbatim>\<open>InvalidOperation\<close>, \<^verbatim>\<open>DivisionByZero\<close> and \<^verbatim>\<open>Overflow\<close>: these raise. Underflow is
  not trapped: a result below \<open>10 ^ Emin\<close> in magnitude is rounded to a multiple of
  \<open>10 ^ Etiny\<close>, possibly to zero.
\<close>

datatype py_decimal = Finite rat | Infinity | NegInfinity | NaN | SNaN

definition Emax :: int where
  "Emax = 999999"

definition Emin :: int where
  "Emin = - 999999"

definition Etiny :: int where
  "Etiny = Emin - 27"

definition context_round :: "rat \<Rightarrow> error + py_decimal" where
  "context_round x =
     (if x = 0 then Inr (Finite 0)
      else if \<bar>x\<bar> < pow10 Emin
      then Inr (Finite (of_int (round_half_even (x / pow10 Etiny)) * pow10 Etiny))
      else
        (let y = round28 x
         in if pow10 (Emax + 1) \<le> \<bar>y\<bar> then Inl Overflow else Inr (Finite y)))"

text \<open>
  Addition. A signalling NaN raises, a quiet NaN propagates, the sum of the two
  infinities is invalid.
\<close>

fun decimal_add :: "py_decimal \<Rightarrow> py_decimal \<Rightarrow> error + py_decimal" where
  "decimal_add SNaN b = Inl InvalidOperation"
| "decimal_add a SNaN = Inl InvalidOperation"
| "decimal_add NaN b = Inr NaN"
| "decimal_add a NaN = Inr NaN"
| "decimal_add Infinity NegInfinity = Inl InvalidOperation"
| "decimal_add NegInfinity Infinity = Inl InvalidOperation"
| "decimal_add Infinity b = Inr Infinity"
| "decimal_add a Infinity = Inr Infinity"
| "decimal_add NegInfinity b = Inr NegInfinity"
| "decimal_add a NegInfinity = Inr NegInfinity"
| "decimal_add (Finite x) (Finite y) = context_round (x + y)"

fun decimal_negate :: "py_decimal \<Rightarrow> py_decimal" where
  "decimal_negate (Finite x) = Finite (- x)"
| "decimal_negate Infinity = NegInfinity"
| "decimal_negate NegInfinity = Infinity"
| "decimal_negate NaN = NaN"
| "decimal_negate SNaN = SNaN"

text \<open>Subtraction is the addition of the operand with its sign changed.\<close>

definition decimal_sub :: "py_decimal \<Rightarrow> py_decimal \<Rightarrow> error + py_decimal" where
  "decimal_sub a b = decimal_add a (decimal_negate b)"

text \<open>Multiplication: zero times an infinity is invalid.\<close>

fun decimal_mul :: "py_decimal \<Rightarrow> py_decimal \<Rightarrow> error + py_decimal" where
  "decimal_mul SNaN b = Inl InvalidOperation"
| "decimal_mul a SNaN = Inl InvalidOperation"
| "decimal_mul NaN b = Inr NaN"
| "decimal_mul a NaN = Inr NaN"
| "decimal_mul (Finite x) (Finite y) = context_round (x * y)"
| "decimal_mul (Finite x) Infinity =
     (if x = 0 then Inl InvalidOperation else Inr (if 0 < x then Infinity else NegInfinity))"
| "decimal_mul (Finite x) NegInfinity =
     (if x = 0 then Inl InvalidOperation else Inr (if 0 < x then NegInfinity else Infinity))"
| "decimal_mul Infinity (Finite y) =
     (if y = 0 then Inl InvalidOperation else Inr (if 0 < y then Infinity else NegInfinity))"
| "decimal_mul NegInfinity (Finite y) =
     (if y = 0 then Inl InvalidOperation else Inr (if 0 < y then NegInfinity else Infinity))"
| "decimal_mul Infinity Infinity = Inr Infinity"
| "decimal_mul NegInfinity NegInfinity = Inr Infinity"
| "decimal_mul Infinity NegInfinity = Inr NegInfinity"
| "decimal_mul NegInfinity Infinity = Inr NegInfinity"

text \<open>The comparisons \<open><\<close> and \<open>>\<close> raise on a NaN of either kind.\<close>

fun decimal_lt :: "py_decimal \<Rightarrow> py_decimal \<Rightarrow> error + bool" where
  "decimal_lt SNaN b = Inl InvalidOperation"
| "decimal_lt a SNaN = Inl InvalidOperation"
| "decimal_lt NaN b = Inl InvalidOperation"
| "decimal_lt a NaN = Inl InvalidOperation"
| "decimal_lt (Finite x) (Finite y) = Inr (x < y)"
| "decimal_lt a Infinity = Inr (a \<noteq> Infinity)"
| "decimal_lt NegInfinity b = Inr (b \<noteq> NegInfinity)"
| "decimal_lt a b = Inr False"

definition decimal_gt :: "py_decimal \<Rightarrow> py_decimal \<Rightarrow> error + bool" where
  "decimal_gt a b = decimal_lt b a"

text \<open>Equality raises on a signalling NaN only; a quiet NaN is equal to nothing.\<close>

fun decimal_eq :: "py_decimal \<Rightarrow> py_decimal \<Rightarrow> error + bool" where
  "decimal_eq SNaN b = Inl InvalidOperation"
| "decimal_eq a SNaN = Inl InvalidOperation"
| "decimal_eq NaN b = Inr False"
| "decimal_eq a NaN = Inr False"
| "decimal_eq a b = Inr (a = b)"

section \<open>Money (interfaces)\<close>

record money =
  amount :: py_decimal
  currency :: string

text \<open>
  The constructor of the frozen dataclass with its \<^verbatim>\<open>__post_init__\<close> check
  \<^verbatim>\<open>self.amount < 0\<close>, which raises on a NaN.
\<close>

definition Money :: "py_decimal \<Rightarrow> string \<Rightarrow> error + money" where
  "Money a c =
     (case decimal_lt a (Finite 0) of
        Inl e \<Rightarrow> Inl e
      | Inr negative \<Rightarrow>
          if negative then Inl (ValueError ''Amount cannot be negative'')
          else Inr \<lparr> amount = a, currency = c \<rparr>)"

definition money_add :: "money \<Rightarrow> money \<Rightarrow> error + money" where
  "money_add self other =
     (if currency self \<noteq> currency other
      then Inl (ValueError ''Cannot add money in different currencies'')
      else case decimal_add (amount self) (amount other) of
             Inl e \<Rightarrow> Inl e
           | Inr d \<Rightarrow> Money d (currency self))"

definition money_sub :: "money \<Rightarrow> money \<Rightarrow> error + money" where
  "money_sub self other =
     (if currency self \<noteq> currency other
      then Inl (ValueError ''Cannot subtract money in different currencies'')
      else case decimal_sub (amount self) (amount other) of
             Inl e \<Rightarrow> Inl e
           | Inr d \<Rightarrow> Money d (currency self))"

definition money_mul :: "money \<Rightarrow> py_decimal \<Rightarrow> error + money" where
  "money_mul self multiplier =
     (case decimal_mul (amount self) multiplier of
        Inl e \<Rightarrow> Inl e
      | Inr d \<Rightarrow> Money d (currency self))"

definition money_lt :: "money \<Rightarrow> money \<Rightarrow> error + bool" where
  "money_lt self other =
     (if currency self \<noteq> currency other
      then Inl (ValueError ''Cannot compare money in different currencies'')
      else decimal_lt (amount self) (amount other))"

definition money_gt :: "money \<Rightarrow> money \<Rightarrow> error + bool" where
  "money_gt self other =
     (if currency self \<noteq> currency other
      then Inl (ValueError ''Cannot compare money in different currencies'')
      else decimal_gt (amount self) (amount other))"

text \<open>
  The equality the dataclass generates compares the amounts, then the currencies; it
  checks no currency and raises nothing of its own.
\<close>

definition money_eq :: "money \<Rightarrow> money \<Rightarrow> error + bool" where
  "money_eq self other =
     (case decimal_eq (amount self) (amount other) of
        Inl e \<Rightarrow> Inl e
      | Inr same \<Rightarrow> Inr (same \<and> currency self = currency other))"

text \<open>The invariant: an amount that is not negative.\<close>

fun nonneg_decimal :: "py_decimal \<Rightarrow> bool" where
  "nonneg_decimal (Finite x) = (0 \<le> x)"
| "nonneg_decimal Infinity = True"
| "nonneg_decimal d = False"

text \<open>
  A finite difference the context represents without overflow or underflow: zero, or
  of a magnitude between \<open>10 ^ Emin\<close> and \<open>10 ^ Emax\<close>.
\<close>

definition in_exponent_range :: "rat \<Rightarrow> bool" where
  "in_exponent_range d = (d = 0 \<or> (pow10 Emin \<le> \<bar>d\<bar> \<and> \<bar>d\<bar> \<le> pow10 Emax))"

section \<open>Entities (core/models)\<close>

text \<open>
  A UUID is used for equality only and is modelled as a natural number. The records
  hold the columns the lifecycle manager and the billing engine read or write.
\<close>

type_synonym uuid = nat

record plan =
  plan_id :: uuid
  plan_name :: string
  price :: decimal
  billing_cycle_days :: int
  trial_period_days :: int
  plan_is_active :: bool
  max_retries :: int

text \<open>
  \<open>retry_count\<close> is a counter: the column defaults to 0 and the code only ever adds
  one to it or resets it, so it is a natural number.
\<close>

record subscription =
  sub_id :: uuid
  user_id :: uuid
  sub_plan_id :: uuid
  status :: string
  current_period_start :: datetime
  current_period_end :: datetime
  cancel_at_period_end :: bool
  trial_start :: "datetime option"
  trial_end :: "datetime option"
  payment_method_id :: string
  auto_renew :: bool
  retry_count :: nat

record transaction =
  tx_id :: uuid
  tx_amount :: decimal

text \<open>A call of \<^verbatim>\<open>payment_processor.process_payment\<close>, by its keyword arguments.\<close>

record payment_call =
  pc_user_id :: uuid
  pc_amount :: decimal
  pc_payment_method_id :: string
  pc_description :: string

datatype notification_data =
    CreatedData uuid string decimal datetime
  | UpgradeData string string decimal
  | PaymentFailedData uuid string

record notification =
  n_user_id :: uuid
  n_event_type :: string
  n_data :: notification_data

record admin_alert =
  aa_kind :: string
  aa_subscription_id :: uuid
  aa_user_id :: uuid
  aa_error :: string

text \<open>
  The state the operations act on: the two tables, and a log for each collaborator the
  code calls for its effect only (payment processor, gateway refunds, notification
  service, retry schedule, admin alerts).
\<close>

record world =
  plans :: "plan list"
  subscriptions :: "subscription list"
  payment_calls :: "payment_call list"
  refunds :: "(uuid \<times> decimal) list"
  notifications :: "notification list"
  scheduled_retries :: "(uuid \<times> datetime) list"
  admin_alerts :: "admin_alert list"

text \<open>
  The payment processor is not in the sources. Its answer to a call (the completed
  transaction, or the exception it raises) is an argument of every operation that
  charges; the call itself is logged.
\<close>

type_synonym processor = "payment_call \<Rightarrow> error + transaction"

definition process_payment ::
  "processor \<Rightarrow> payment_call \<Rightarrow> world \<Rightarrow> (error + transaction) \<times> world" where
  "process_payment processor call w =
     (processor call, w\<lparr>payment_calls := payment_calls w @ [call]\<rparr>)"

section \<open>Persistence helpers\<close>

text \<open>
  Modelled from the spec: \<^verbatim>\<open>_get_subscription\<close> is called but not defined in the
  sources. It is the lookup of a subscription by its identity, failing with
  \<^verbatim>\<open>NotFound\<close> when the referenced entity does not exist.
\<close>

definition get_subscription :: "world \<Rightarrow> uuid \<Rightarrow> error + subscription" where
  "get_subscription w sid =
     (case find (\<lambda>s. sub_id s = sid) (subscriptions w) of
        None \<Rightarrow> Inl (NotFound ''subscription'')
      | Some s \<Rightarrow> Inr s)"

text \<open>
  Modelled from the spec: \<^verbatim>\<open>_get_active_subscription\<close> is called with the user's
  identity alone and is not defined in the sources. The spec rejects a creation when
  an active, trial or past-due subscription exists for the user.
\<close>

definition get_active_subscription :: "world \<Rightarrow> uuid \<Rightarrow> subscription option" where
  "get_active_subscription w uid =
     find (\<lambda>s. user_id s = uid \<and> status s \<in> set [''active'', ''trial'', ''past_due''])
       (subscriptions w)"

text \<open>
  Modelled from the spec: \<^verbatim>\<open>plan_calculator.get_plan\<close> is not in the sources. It is a
  lookup that fails with \<^verbatim>\<open>NotFound\<close> if the plan is missing or inactive.
\<close>

definition get_plan :: "world \<Rightarrow> uuid \<Rightarrow> error + plan" where
  "get_plan w pid =
     (case find (\<lambda>p. plan_id p = pid) (plans w) of
        None \<Rightarrow> Inl (NotFound ''plan'')
      | Some p \<Rightarrow> if plan_is_active p then Inr p else Inl (NotFound ''plan''))"

text \<open>The relationship \<^verbatim>\<open>subscription.plan\<close>: the plan row the subscription refers to.\<close>

definition subscription_plan :: "world \<Rightarrow> subscription \<Rightarrow> plan option" where
  "subscription_plan w s = find (\<lambda>p. plan_id p = sub_plan_id s) (plans w)"

text \<open>Writing a subscription row back: the row with the same identity is replaced.\<close>

definition update_subscription :: "subscription \<Rightarrow> world \<Rightarrow> world" where
  "update_subscription s w =
     w\<lparr>subscriptions := map (\<lambda>r. if sub_id r = sub_id s then s else r) (subscriptions w)\<rparr>"

definition send_notification :: "notification \<Rightarrow> world \<Rightarrow> world" where
  "send_notification n w = w\<lparr>notifications := notifications w @ [n]\<rparr>"

section \<open>Lifecycle manager (subscription/lifecycle)\<close>

record trial_period =
  tp_start :: datetime
  tp_end :: datetime
  tp_active :: bool

record create_result =
  cr_success :: bool
  cr_subscription_id :: uuid
  cr_transaction_id :: "uuid option"
  cr_trial_ends_at :: "datetime option"
  cr_next_billing_date :: datetime

definition apply_promo_code :: "string option \<Rightarrow> plan \<Rightarrow> uuid \<Rightarrow> decimal" where
  "apply_promo_code promo_code p uid =
     (case promo_code of None \<Rightarrow> 0 | Some c \<Rightarrow> if c = [] then 0 else 0)"

definition setup_trial_period :: "int \<Rightarrow> datetime \<Rightarrow> datetime \<Rightarrow> trial_period" where
  "setup_trial_period trial_days period_start period_end =
     (let trial_end = period_start + timedelta_days trial_days
      in \<lparr> tp_start = period_start, tp_end = trial_end, tp_active = True \<rparr>)"

text \<open>
  Modelled from the spec: \<^verbatim>\<open>_create_subscription_record\<close> is not in the sources. It
  persists a row with the keyword arguments it is given, the trial boundaries taken
  from the trial period, and the column defaults of the table for the rest. The new
  identity (a fresh UUID) is an argument.
\<close>

definition create_subscription_record ::
  "uuid \<Rightarrow> uuid \<Rightarrow> uuid \<Rightarrow> string \<Rightarrow> datetime \<Rightarrow> datetime \<Rightarrow> trial_period option \<Rightarrow> string
     \<Rightarrow> world \<Rightarrow> subscription \<times> world" where
  "create_subscription_record new_id uid pid st period_start period_end trial pm w =
     (let s = \<lparr> sub_id = new_id, user_id = uid, sub_plan_id = pid, status = st,
                 current_period_start = period_start, current_period_end = period_end,
                 cancel_at_period_end = False,
                 trial_start = map_option tp_start trial,
                 trial_end = map_option tp_end trial,
                 payment_method_id = pm, auto_renew = True, retry_count = 0 \<rparr>
      in (s, w\<lparr>subscriptions := subscriptions w @ [s]\<rparr>))"

text \<open>
  \<^verbatim>\<open>_send_subscription_created_notifications\<close> reads the plan's name through the new
  subscription.
\<close>

definition send_subscription_created_notifications ::
  "uuid \<Rightarrow> subscription \<Rightarrow> transaction option \<Rightarrow> world \<Rightarrow> error + world" where
  "send_subscription_created_notifications uid s tx w =
     (case subscription_plan w s of
        None \<Rightarrow> Inl (AttributeError ''name'')
      | Some p \<Rightarrow>
          Inr (send_notification
                 \<lparr> n_user_id = uid, n_event_type = ''subscription_created'',
                   n_data = CreatedData (sub_id s) (plan_name p)
                              (case tx of Some t \<Rightarrow> tx_amount t | None \<Rightarrow> 0)
                              (current_period_end s) \<rparr> w))"

text \<open>
  \<^verbatim>\<open>create_subscription\<close>. The handler around the body logs and raises again, so an
  exception leaves the operation as the error value; what was done before it stays
  done.
\<close>

definition create_subscription ::
  "processor \<Rightarrow> datetime \<Rightarrow> uuid \<Rightarrow> uuid \<Rightarrow> uuid \<Rightarrow> string \<Rightarrow> string option \<Rightarrow> world
     \<Rightarrow> (error + create_result) \<times> world" where
  "create_subscription processor now new_id uid pid pm promo_code w =
     (case get_active_subscription w uid of
        Some existing \<Rightarrow>
          (Inl (SubscriptionError ''User already has an active subscription''), w)
      | None \<Rightarrow>
          (case get_plan w pid of
             Inl e \<Rightarrow> (Inl e, w)
           | Inr p \<Rightarrow>
               (let discount = apply_promo_code promo_code p uid;
                    period_start = now;
                    period_end = period_start + timedelta_days (billing_cycle_days p);
                    trial =
                      (if 0 < trial_period_days p
                       then Some (setup_trial_period (trial_period_days p)
                                    period_start period_end)
                       else None);
                    (paid, w1) =
                      (if trial = None
                       then (case process_payment processor
                                    \<lparr> pc_user_id = uid,
                                      pc_amount = dec_sub (price p) discount,
                                      pc_payment_method_id = pm,
                                      pc_description = ''Subscription to '' @ plan_name p \<rparr> w of
                               (Inl e, w') \<Rightarrow> (Inl e, w')
                             | (Inr t, w') \<Rightarrow> (Inr (Some t), w'))
                       else (Inr None, w))
                in case paid of
                     Inl e \<Rightarrow> (Inl e, w1)
                   | Inr tx \<Rightarrow>
                       (let (s, w2) =
                              create_subscription_record new_id uid pid
                                (if trial \<noteq> None then ''active'' else ''pending'')
                                period_start period_end trial pm w1
                        in case send_subscription_created_notifications uid s tx w2 of
                             Inl e \<Rightarrow> (Inl e, w2)
                           | Inr w3 \<Rightarrow>
                               (Inr \<lparr> cr_success = True,
                                      cr_subscription_id = sub_id s,
                                      cr_transaction_id = map_option tx_id tx,
                                      cr_trial_ends_at = map_option tp_end trial,
                                      cr_next_billing_date = period_end \<rparr>, w3)))))"

text \<open>
  \<^verbatim>\<open>cancel_subscription\<close>. The two helpers it delegates to, \<^verbatim>\<open>_cancel_immediately\<close>
  and \<^verbatim>\<open>_cancel_at_period_end\<close>, are not in the sources and are arguments.
\<close>

definition cancel_subscription ::
  "(subscription \<Rightarrow> world \<Rightarrow> (error + 'r) \<times> world)
     \<Rightarrow> (subscription \<Rightarrow> world \<Rightarrow> (error + 'r) \<times> world)
     \<Rightarrow> uuid \<Rightarrow> bool \<Rightarrow> world \<Rightarrow> (error + 'r) \<times> world" where
  "cancel_subscription do_cancel_immediately do_cancel_at_period_end sid immediate w =
     (case get_subscription w sid of
        Inl e \<Rightarrow> (Inl e, w)
      | Inr s \<Rightarrow>
          if status s = ''cancelled''
          then (Inl (SubscriptionError ''Subscription already cancelled''), w)
          else if immediate then do_cancel_immediately s w
          else do_cancel_at_period_end s w)"

record cancel_result =
  cn_success :: bool
  cn_subscription_id :: uuid
  cn_refund :: "decimal option"

text \<open>
  Modelled from the spec: \<^verbatim>\<open>_cancel_at_period_end\<close>, not in the sources. It sets
  \<^verbatim>\<open>cancel_at_period_end\<close> and leaves the state as it is.
\<close>

definition cancel_at_period_end_helper ::
  "subscription \<Rightarrow> world \<Rightarrow> (error + cancel_result) \<times> world" where
  "cancel_at_period_end_helper s w =
     (Inr \<lparr> cn_success = True, cn_subscription_id = sub_id s, cn_refund = None \<rparr>,
      update_subscription (s\<lparr>cancel_at_period_end := True\<rparr>) w)"

text \<open>
  Modelled from the spec: \<^verbatim>\<open>_cancel_immediately\<close>, not in the sources. It asks the
  gateway for a refund; on success the subscription becomes cancelled and the refund is
  recorded, on failure the state remains and the operation fails. The amount of the
  refund and the gateway's answer are arguments.
\<close>

definition cancel_immediately_helper ::
  "decimal \<Rightarrow> bool \<Rightarrow> subscription \<Rightarrow> world \<Rightarrow> (error + cancel_result) \<times> world" where
  "cancel_immediately_helper refund_amount gateway_ok s w =
     (if gateway_ok
      then (Inr \<lparr> cn_success = True, cn_subscription_id = sub_id s,
                  cn_refund = Some refund_amount \<rparr>,
            (update_subscription (s\<lparr>status := ''cancelled''\<rparr>) w)
              \<lparr>refunds := refunds w @ [(sub_id s, refund_amount)]\<rparr>)
      else (Inl (PaymentProcessingError ''Refund failed''), w))"

definition validate_upgrade :: "plan \<Rightarrow> plan \<Rightarrow> error + unit" where
  "validate_upgrade current_plan new_plan =
     (if price new_plan \<le> price current_plan
      then Inl (SubscriptionError ''New plan must be more expensive for upgrade'')
      else Inr ())"

definition calculate_prorated_amount ::
  "datetime \<Rightarrow> subscription \<Rightarrow> plan \<Rightarrow> plan \<Rightarrow> error + decimal" where
  "calculate_prorated_amount now s current_plan new_plan =
     (let days_used = days_of (now - current_period_start s);
          total_days = days_of (current_period_end s - current_period_start s);
          days_remaining = total_days - days_used
      in case dec_div (price current_plan) (of_int total_days) of
           Inl e \<Rightarrow> Inl e
         | Inr daily_rate_current \<Rightarrow>
             (case dec_div (price new_plan) (of_int total_days) of
                Inl e \<Rightarrow> Inl e
              | Inr daily_rate_new \<Rightarrow>
                  (let amount_paid = dec_mul daily_rate_current (of_int days_used);
                       amount_due = dec_mul daily_rate_new (of_int days_remaining)
                   in Inr (max (dec_sub amount_due amount_paid) 0))))"

text \<open>
  The formula as the spec writes it, in exact arithmetic, with the days used clamped to
  the period: \<open>max(0, (new.price/total)\<cdot>remaining - (current.price/total)\<cdot>used)\<close>.
\<close>

definition prorate_claimed :: "datetime \<Rightarrow> subscription \<Rightarrow> plan \<Rightarrow> plan \<Rightarrow> rat" where
  "prorate_claimed now s current_plan new_plan =
     (let total = days_of (current_period_end s - current_period_start s);
          used = max 0 (min total (days_of (now - current_period_start s)));
          remaining = total - used
      in max 0 (price new_plan / of_int total * of_int remaining
                  - price current_plan / of_int total * of_int used))"

text \<open>
  Modelled from the spec: \<^verbatim>\<open>_update_subscription_plan\<close>, not in the sources. It swaps
  the plan; the end of the period is unchanged and the retry counter is reset.
\<close>

definition update_subscription_plan :: "subscription \<Rightarrow> uuid \<Rightarrow> world \<Rightarrow> subscription \<times> world" where
  "update_subscription_plan s new_plan_id w =
     (let s' = s\<lparr>sub_plan_id := new_plan_id, retry_count := 0\<rparr>
      in (s', update_subscription s' w))"

record upgrade_result =
  ur_success :: bool
  ur_subscription_id :: uuid
  ur_transaction_id :: "uuid option"
  ur_prorated_amount :: decimal
  ur_new_plan :: string

text \<open>
  \<^verbatim>\<open>upgrade_subscription\<close>. \<^verbatim>\<open>_send_upgrade_notifications\<close> is not in the sources; the
  call is logged with the arguments it is given.
\<close>

definition upgrade_subscription ::
  "processor \<Rightarrow> datetime \<Rightarrow> uuid \<Rightarrow> uuid \<Rightarrow> world \<Rightarrow> (error + upgrade_result) \<times> world" where
  "upgrade_subscription processor now sid new_plan_id w =
     (case get_subscription w sid of
        Inl e \<Rightarrow> (Inl e, w)
      | Inr s \<Rightarrow>
          (case get_plan w new_plan_id of
             Inl e \<Rightarrow> (Inl e, w)
           | Inr new_plan \<Rightarrow>
               (case subscription_plan w s of
                  None \<Rightarrow> (Inl (AttributeError ''price''), w)
                | Some current_plan \<Rightarrow>
                    (case validate_upgrade current_plan new_plan of
                       Inl e \<Rightarrow> (Inl e, w)
                     | Inr u \<Rightarrow>
                         (case calculate_prorated_amount now s current_plan new_plan of
                            Inl e \<Rightarrow> (Inl e, w)
                          | Inr prorated_amount \<Rightarrow>
                              (let (paid, w1) =
                                     (if 0 < prorated_amount
                                      then (case process_payment processor
                                                   \<lparr> pc_user_id = user_id s,
                                                     pc_amount = prorated_amount,
                                                     pc_payment_method_id = payment_method_id s,
                                                     pc_description =
                                                       ''Upgrade from '' @ plan_name current_plan
                                                         @ '' to '' @ plan_name new_plan \<rparr> w of
                                              (Inl e, w') \<Rightarrow> (Inl e, w')
                                            | (Inr t, w') \<Rightarrow> (Inr (Some t), w'))
                                      else (Inr None, w))
                               in case paid of
                                    Inl e \<Rightarrow> (Inl e, w1)
                                  | Inr tx \<Rightarrow>
                                      (let (updated, w2) =
                                             update_subscription_plan s new_plan_id w1;
                                           w3 = send_notification
                                                  \<lparr> n_user_id = user_id s,
                                                    n_event_type = ''upgrade_completed'',
                                                    n_data = UpgradeData (plan_name current_plan)
                                                               (plan_name new_plan)
                                                               prorated_amount \<rparr> w2
                                       in (Inr \<lparr> ur_success = True,
                                                 ur_subscription_id = sub_id updated,
                                                 ur_transaction_id = map_option tx_id tx,
                                                 ur_prorated_amount = prorated_amount,
                                                 ur_new_plan = plan_name new_plan \<rparr>,
                                           w3))))))))"

section \<open>Billing engine (subscription/billing)\<close>

record retry_settings =
  max_attempts :: int
  initial_delay :: int
  backoff_factor :: int
  max_delay :: int

definition retry_config :: retry_settings where
  "retry_config =
     \<lparr> max_attempts = 3, initial_delay = 1, backoff_factor = 2, max_delay = 24 \<rparr>"

text \<open>The dictionary a worker returns for one subscription; an absent key is \<open>None\<close>.\<close>

record billing_result =
  br_subscription_id :: uuid
  br_success :: bool
  br_error :: "string option"
  br_cancelled :: "bool option"
  br_retry_scheduled :: "datetime option"
  br_retry_count :: "nat option"
  br_transaction_id :: "uuid option"
  br_amount :: "decimal option"
  br_next_billing_date :: "datetime option"

definition failure_result :: "uuid \<Rightarrow> string \<Rightarrow> billing_result" where
  "failure_result sid msg =
     \<lparr> br_subscription_id = sid, br_success = False, br_error = Some msg,
       br_cancelled = None, br_retry_scheduled = None, br_retry_count = None,
       br_transaction_id = None, br_amount = None, br_next_billing_date = None \<rparr>"

text \<open>\<^verbatim>\<open>str(e)\<close> of an exception: its message.\<close>

fun error_text :: "error \<Rightarrow> string" where
  "error_text (ValueError m) = m"
| "error_text (KeyError m) = m"
| "error_text (SubscriptionError m) = m"
| "error_text (InsufficientFundsError m) = m"
| "error_text (PaymentProcessingError m) = m"
| "error_text DivisionByZero = ''DivisionByZero''"
| "error_text InvalidOperation = ''InvalidOperation''"
| "error_text Overflow = ''Overflow''"
| "error_text (AttributeError m) = m"
| "error_text (NotFound m) = m"
| "error_text (OtherError m) = m"

text \<open>\<^verbatim>\<open>_acquire_lock\<close> is a stub in the source.\<close>

definition acquire_lock :: "uuid \<Rightarrow> bool" where
  "acquire_lock sid = True"

text \<open>
  Modelled from the spec: \<^verbatim>\<open>_cancel_subscription_for_non_payment\<close>,
  \<^verbatim>\<open>_schedule_retry\<close>, \<^verbatim>\<open>_send_payment_failed_notification\<close>, \<^verbatim>\<open>_send_admin_alert\<close>
  and \<^verbatim>\<open>_extend_subscription\<close> are called but not defined in the sources. The first is
  the transition to cancelled; the next three record their arguments (the retry is
  persisted for later pickup, the notification and the alert are handed over); the last
  sets the new end of the period, resets the retry counter and keeps the state.
\<close>

definition cancel_subscription_for_non_payment :: "subscription \<Rightarrow> world \<Rightarrow> world" where
  "cancel_subscription_for_non_payment s w =
     update_subscription (s\<lparr>status := ''cancelled''\<rparr>) w"

definition schedule_retry :: "uuid \<Rightarrow> datetime \<Rightarrow> world \<Rightarrow> world" where
  "schedule_retry sid retry_date w =
     w\<lparr>scheduled_retries := scheduled_retries w @ [(sid, retry_date)]\<rparr>"

definition send_payment_failed_notification ::
  "uuid \<Rightarrow> subscription \<Rightarrow> string \<Rightarrow> world \<Rightarrow> world" where
  "send_payment_failed_notification uid s reason w =
     send_notification
       \<lparr> n_user_id = uid, n_event_type = ''payment_failed'',
         n_data = PaymentFailedData (sub_id s) reason \<rparr> w"

definition send_admin_alert :: "string \<Rightarrow> uuid \<Rightarrow> uuid \<Rightarrow> string \<Rightarrow> world \<Rightarrow> world" where
  "send_admin_alert kind sid uid msg w =
     w\<lparr>admin_alerts := admin_alerts w
          @ [\<lparr> aa_kind = kind, aa_subscription_id = sid, aa_user_id = uid,
                aa_error = msg \<rparr>]\<rparr>"

definition extend_subscription :: "subscription \<Rightarrow> datetime \<Rightarrow> world \<Rightarrow> world" where
  "extend_subscription s next_period_end w =
     update_subscription (s\<lparr>current_period_end := next_period_end, retry_count := 0\<rparr>) w"

text \<open>
  \<^verbatim>\<open>_handle_insufficient_funds\<close>. The subscription object is the row: the increment
  of its counter is written to the table before anything else happens.
\<close>

definition handle_insufficient_funds ::
  "datetime \<Rightarrow> subscription \<Rightarrow> world \<Rightarrow> (error + billing_result) \<times> world" where
  "handle_insufficient_funds now s w =
     (let s1 = s\<lparr>retry_count := retry_count s + 1\<rparr>;
          w1 = update_subscription s1 w
      in case subscription_plan w1 s1 of
           None \<Rightarrow> (Inl (AttributeError ''max_retries''), w1)
         | Some p \<Rightarrow>
             if max_retries p \<le> int (retry_count s1)
             then (Inr ((failure_result (sub_id s1)
                           ''Subscription cancelled due to non-payment'')
                          \<lparr>br_cancelled := Some True\<rparr>),
                   cancel_subscription_for_non_payment s1 w1)
             else
               (let retry_date =
                      now + timedelta_days
                              (initial_delay retry_config
                                 * backoff_factor retry_config ^ (retry_count s1 - 1));
                    w2 = schedule_retry (sub_id s1) retry_date w1;
                    w3 = send_payment_failed_notification (user_id s1) s1
                           ''insufficient_funds'' w2
                in (Inr ((failure_result (sub_id s1) ''Insufficient funds'')
                           \<lparr>br_retry_scheduled := Some retry_date,
                            br_retry_count := Some (retry_count s1)\<rparr>),
                    w3)))"

definition handle_payment_error ::
  "subscription \<Rightarrow> string \<Rightarrow> world \<Rightarrow> billing_result \<times> world" where
  "handle_payment_error s error_message w =
     (failure_result (sub_id s) (''Payment gateway error: '' @ error_message),
      send_admin_alert ''payment_gateway_error'' (sub_id s) (user_id s) error_message w)"

text \<open>
  \<^verbatim>\<open>_process_subscription_payment\<close>. The clause for \<^verbatim>\<open>InsufficientFundsError\<close> comes
  first, then the one for \<^verbatim>\<open>PaymentProcessingError\<close>; whatever else is raised, by the
  processor or inside a handler, reaches the outer handler, which reports it.
\<close>

definition process_subscription_payment ::
  "processor \<Rightarrow> datetime \<Rightarrow> subscription \<Rightarrow> world \<Rightarrow> billing_result \<times> world" where
  "process_subscription_payment processor now s w =
     (if \<not> acquire_lock (sub_id s)
      then (failure_result (sub_id s) ''Could not acquire lock'', w)
      else
        (case subscription_plan w s of
           None \<Rightarrow> (failure_result (sub_id s) (error_text (AttributeError ''price'')), w)
         | Some p \<Rightarrow>
             (case process_payment processor
                     \<lparr> pc_user_id = user_id s, pc_amount = price p,
                       pc_payment_method_id = payment_method_id s,
                       pc_description = ''Auto-renewal of '' @ plan_name p \<rparr> w of
                (Inr t, w1) \<Rightarrow>
                  (let next_period_end =
                         current_period_end s + timedelta_days (billing_cycle_days p)
                   in (\<lparr> br_subscription_id = sub_id s, br_success = True,
                         br_error = None, br_cancelled = None,
                         br_retry_scheduled = None, br_retry_count = None,
                         br_transaction_id = Some (tx_id t),
                         br_amount = Some (tx_amount t),
                         br_next_billing_date = Some next_period_end \<rparr>,
                       extend_subscription s next_period_end w1))
              | (Inl (InsufficientFundsError m), w1) \<Rightarrow>
                  (case handle_insufficient_funds now s w1 of
                     (Inl e, w2) \<Rightarrow> (failure_result (sub_id s) (error_text e), w2)
                   | (Inr r, w2) \<Rightarrow> (r, w2))
              | (Inl (PaymentProcessingError m), w1) \<Rightarrow> handle_payment_error s m w1
              | (Inl e, w1) \<Rightarrow> (failure_result (sub_id s) (error_text e), w1))))"

text \<open>
  Modelled from the spec: \<^verbatim>\<open>_get_subscriptions_due_for_payment\<close>, not in the sources:
  the active subscriptions whose period has ended and that renew automatically.
\<close>

definition get_subscriptions_due_for_payment :: "datetime \<Rightarrow> world \<Rightarrow> subscription list" where
  "get_subscriptions_due_for_payment now w =
     filter (\<lambda>s. status s = ''active'' \<and> current_period_end s \<le> now \<and> auto_renew s)
       (subscriptions w)"

text \<open>
  \<^verbatim>\<open>process_recurring_payments\<close> submits every due subscription to a pool of workers
  and appends the results as the workers complete (\<^verbatim>\<open>as_completed\<close>), so the results come
  in the order of completion, which is any order. A run of the batch is modelled by the
  order in which the workers complete: at each step one of the subscriptions still
  pending completes and its result is appended. A worker reads and writes the row of
  its own subscription and appends to the logs; its steps are taken together at its
  completion.
\<close>

inductive batch_run ::
  "processor \<Rightarrow> datetime \<Rightarrow> subscription list \<Rightarrow> world \<Rightarrow> billing_result list \<Rightarrow> world \<Rightarrow> bool"
  for processor :: processor and now :: datetime where
  batch_done: "batch_run processor now [] w [] w"
| batch_next:
    "s \<in> set pending \<Longrightarrow>
     process_subscription_payment processor now s w = (r, w1) \<Longrightarrow>
     batch_run processor now (remove1 s pending) w1 rs w2 \<Longrightarrow>
     batch_run processor now pending w (r # rs) w2"

definition process_recurring_payments ::
  "processor \<Rightarrow> datetime \<Rightarrow> world \<Rightarrow> billing_result list \<Rightarrow> world \<Rightarrow> bool" where
  "process_recurring_payments processor now w rs w' =
     batch_run processor now (get_subscriptions_due_for_payment now w) w rs w'"

text \<open>
  What a batch owes to each subscription, whatever happens to the others: the charge
  the worker asks the processor for, and whether that charge succeeds.
\<close>

definition renewal_call :: "plan \<Rightarrow> subscription \<Rightarrow> payment_call" where
  "renewal_call p s =
     \<lparr> pc_user_id = user_id s, pc_amount = price p,
       pc_payment_method_id = payment_method_id s,
       pc_description = ''Auto-renewal of '' @ plan_name p \<rparr>"

definition charges_due :: "world \<Rightarrow> subscription list \<Rightarrow> payment_call list" where
  "charges_due w ss =
     concat (map (\<lambda>s. case subscription_plan w s of
                          None \<Rightarrow> [] | Some p \<Rightarrow> [renewal_call p s]) ss)"

definition charge_succeeds :: "processor \<Rightarrow> world \<Rightarrow> subscription \<Rightarrow> bool" where
  "charge_succeeds processor w s =
     (case subscription_plan w s of
        None \<Rightarrow> False
      | Some p \<Rightarrow> (case processor (renewal_call p s) of Inl e \<Rightarrow> False | Inr t \<Rightarrow> True))"

section \<open>Example data\<close>

text \<open>
  Four plans with a cycle of 30 days, a subscription of user 1 whose period runs from
  day 5 to day 35, and three payment processors: one that completes every charge, one
  whose gateway is down, one that finds no funds.
\<close>

definition example_plan :: "uuid \<Rightarrow> string \<Rightarrow> decimal \<Rightarrow> int \<Rightarrow> int \<Rightarrow> plan" where
  "example_plan i n pr trial retries =
     \<lparr> plan_id = i, plan_name = n, price = pr, billing_cycle_days = 30,
       trial_period_days = trial, plan_is_active = True, max_retries = retries \<rparr>"

definition plan_basic :: plan where
  "plan_basic = example_plan 1 ''Basic'' 30 0 3"

definition plan_premium :: plan where
  "plan_premium = example_plan 2 ''Premium'' 90 0 3"

definition plan_trial :: plan where
  "plan_trial = example_plan 3 ''Trial'' 30 7 3"

definition plan_patient :: plan where
  "plan_patient = example_plan 4 ''Patient'' 30 0 10"

definition example_subscription :: "uuid \<Rightarrow> string \<Rightarrow> nat \<Rightarrow> subscription" where
  "example_subscription pid st rc =
     \<lparr> sub_id = 10, user_id = 1, sub_plan_id = pid, status = st,
       current_period_start = timedelta_days 5, current_period_end = timedelta_days 35,
       cancel_at_period_end = False, trial_start = None, trial_end = None,
       payment_method_id = ''pm1'', auto_renew = True, retry_count = rc \<rparr>"

definition example_world :: "subscription list \<Rightarrow> world" where
  "example_world subs =
     \<lparr> plans = [plan_basic, plan_premium, plan_trial, plan_patient],
       subscriptions = subs, payment_calls = [], refunds = [], notifications = [],
       scheduled_retries = [], admin_alerts = [] \<rparr>"

definition always_paid :: processor where
  "always_paid call = Inr \<lparr> tx_id = 77, tx_amount = pc_amount call \<rparr>"

definition gateway_down :: processor where
  "gateway_down call = Inl (PaymentProcessingError ''timeout'')"

definition no_funds :: processor where
  "no_funds call = Inl (InsufficientFundsError ''Insufficient funds'')"

text \<open>
  For a batch: the example subscription under another identity and user, and a processor
  whose gateway is down for one user and completes the charges of all others.
\<close>

definition example_subscription_of :: "uuid \<Rightarrow> uuid \<Rightarrow> subscription" where
  "example_subscription_of sid uid =
     (example_subscription 1 ''active'' 0)\<lparr>sub_id := sid, user_id := uid\<rparr>"

definition down_for_user :: "uuid \<Rightarrow> processor" where
  "down_for_user uid call =
     (if pc_user_id call = uid then Inl (PaymentProcessingError ''timeout'')
      else Inr \<lparr> tx_id = 77, tx_amount = pc_amount call \<rparr>)"

section \<open>Properties of the task scheduler\<close>

lemma schedule_recurring_task_first_run:
  "\<exists>t. snd (schedule_recurring_task tid interval now tasks) tid = Some t
       \<and> next_run t = Some (now + interval) \<and> last_run t = None
       \<and> schedule_params t = IntervalParams interval"
  by (simp add: schedule_recurring_task_def Let_def)

text \<open>
  After a run that returned, the next run of an interval task is one unit of its
  resolution after the run, whatever the interval; a run that raised leaves the
  bookkeeping as it was.
\<close>

lemma interval_task_next_run:
  "\<exists>t. interval_task_after_run interval t0 t1 = Some t
       \<and> schedule_params t = IntervalParams interval
       \<and> last_run t = Some t1
       \<and> next_run t =
           Some (t1 + (if interval < timedelta_seconds 60 then timedelta_seconds 1
                       else if interval < timedelta_seconds 3600 then timedelta_minutes 1
                       else if interval < timedelta_seconds 86400 then timedelta_hours 1
                       else timedelta_days 1))"
  by (simp add: interval_task_after_run_def schedule_recurring_task_def wrap_task_def
      should_run_task_def calculate_next_task_run_def interval_map_def Let_def)

lemma failed_run_keeps_bookkeeping:
  "wrap_task tid (TaskRaised msg) now now' tasks = tasks"
  by (simp add: wrap_task_def)

text \<open>
  Claim C9. The claim says that after a completed run of an interval task the scheduler
  sets \<open>next_run = last_run + duration\<close>, the duration the task was scheduled with. The
  code adds one unit of the task's resolution instead: a task scheduled every five
  minutes at time 0 has its first run due at 300 s, and when that run completes at
  300 s its next run is recorded as 360 s, not 600 s.
\<close>

theorem interval_next_run_adds_one_unit:
  "interval_task_after_run (timedelta_minutes 5) 0 (timedelta_seconds 300)
     = Some \<lparr> task_id = ''job'', schedule_type = ''minutes'',
              schedule_params = IntervalParams (timedelta_minutes 5),
              last_run = Some (timedelta_seconds 300),
              next_run = Some (timedelta_seconds 360), is_active = True \<rparr>
   \<and> timedelta_seconds 300 + timedelta_minutes 5 = timedelta_seconds 600
   \<and> timedelta_seconds 360 \<noteq> timedelta_seconds 600"
  by (simp add: interval_task_after_run_def schedule_recurring_task_def wrap_task_def
      should_run_task_def calculate_next_task_run_def interval_map_def
      timedelta_minutes_def timedelta_seconds_def Let_def)

section \<open>Properties of the payment gateway\<close>

lemma idempotence_key_is_clock:
  "idempotence_key (charge_request api_key is_test now_stamp amount_text cur m c)
     = Some now_stamp"
  by (simp add: idempotence_key_def charge_request_def make_request_def get_headers_def)

text \<open>
  Claim C1. The claim says that the idempotency key sent with a charge is a function of
  the pending transaction, so that two submissions of the same charge carry the same
  key. In the code the key is the reading of the clock at the moment the request is
  built: the same charge (same shop, amount, payment method and customer) submitted at
  two different moments carries two different keys.
\<close>

theorem idempotence_key_differs_between_submissions:
  "idempotence_key (charge_request ''shop'' False ''1730666000.123456''
                      ''1000.00'' ''RUB'' ''pm1'' ''u1'')
     = Some ''1730666000.123456''
   \<and> idempotence_key (charge_request ''shop'' False ''1730666030.654321''
                      ''1000.00'' ''RUB'' ''pm1'' ''u1'')
     = Some ''1730666030.654321''
   \<and> req_json (charge_request ''shop'' False ''1730666000.123456''
                      ''1000.00'' ''RUB'' ''pm1'' ''u1'')
     = req_json (charge_request ''shop'' False ''1730666030.654321''
                      ''1000.00'' ''RUB'' ''pm1'' ''u1'')
   \<and> idempotence_key (charge_request ''shop'' False ''1730666000.123456''
                      ''1000.00'' ''RUB'' ''pm1'' ''u1'')
     \<noteq> idempotence_key (charge_request ''shop'' False ''1730666030.654321''
                      ''1000.00'' ''RUB'' ''pm1'' ''u1'')"
  by (simp add: idempotence_key_def charge_request_def make_request_def get_headers_def)

section \<open>Properties of the decimal arithmetic\<close>

text \<open>Rounding to 28 significant digits keeps the sign: it never rounds to zero.\<close>

lemma digits10_bounds: "1 \<le> n \<Longrightarrow> 10 ^ (digits10 n - 1) \<le> n \<and> n < 10 ^ digits10 n"
proof (induction n rule: digits10.induct)
  case (1 n)
  show ?case
  proof (cases "n < 10")
    case True
    with "1.prems" show ?thesis by simp
  next
    case False
    then have "1 \<le> n div 10" by simp
    with 1 False have ih: "10 ^ (digits10 (n div 10) - 1) \<le> n div 10"
       "n div 10 < 10 ^ digits10 (n div 10)" by simp_all
    have pos: "0 < digits10 (n div 10)"
      by (subst digits10.simps) simp
    from False have eq: "digits10 n = Suc (digits10 (n div 10))"
      by (subst digits10.simps) simp
    from ih(1) have "10 * 10 ^ (digits10 (n div 10) - 1) \<le> n" by linarith
    moreover have "(10::int) * 10 ^ (digits10 (n div 10) - 1) = 10 ^ digits10 (n div 10)"
      using pos by (cases "digits10 (n div 10)") simp_all
    moreover from ih(2) have "n < 10 * 10 ^ digits10 (n div 10)" by linarith
    ultimately show ?thesis using eq by simp
  qed
qed

lemma pow10_powi: "pow10 e = 10 powi e"
  by (simp add: pow10_def power_int_def inverse_eq_divide power_one_over)

lemma pow10_pos: "0 < pow10 e"
  by (simp add: pow10_powi)

lemma pow10_mono: "e \<le> e' \<Longrightarrow> pow10 e \<le> pow10 e'"
  by (simp add: pow10_powi power_int_increasing)

lemma pow10_diff_nat: "pow10 (int m - int n) = 10 ^ m / 10 ^ n"
  by (simp add: pow10_powi power_int_diff)

lemma adjusted_le:
  assumes "0 < x"
  shows "pow10 (adjusted x) \<le> x"
proof -
  obtain a b where q: "quotient_of x = (a, b)" by (cases "quotient_of x")
  then have b: "0 < b" and x: "x = of_int a / of_int b"
    using quotient_of_denom_pos quotient_of_div by blast+
  from assms x b have a: "0 < a"
    by (simp add: zero_less_divide_iff)
  define d where "d = int (digits10 a) - int (digits10 b)"
  have adj: "adjusted x = (if pow10 d \<le> x then d else d - 1)"
    by (simp add: adjusted_def q d_def Let_def)
  have "pow10 (d - 1) \<le> x"
  proof -
    from a have da: "10 ^ (digits10 a - 1) \<le> a" using digits10_bounds [of a] by simp
    from b have db: "b < 10 ^ digits10 b" using digits10_bounds [of b] by simp
    have pa: "0 < digits10 a" by (subst digits10.simps) simp
    then have "d - 1 = int (digits10 a - 1) - int (digits10 b)"
      by (simp add: d_def)
    then have "pow10 (d - 1) = 10 ^ (digits10 a - 1) / 10 ^ digits10 b"
      by (simp only: pow10_diff_nat)
    also have "\<dots> \<le> of_int a / 10 ^ digits10 b"
    proof -
      from da have "(of_int (10 ^ (digits10 a - 1)) :: rat) \<le> of_int a"
        by (simp only: of_int_le_iff)
      then show ?thesis by (simp add: divide_right_mono)
    qed
    also have "\<dots> \<le> of_int a / of_int b"
    proof -
      from db have "(of_int b :: rat) \<le> of_int (10 ^ digits10 b)"
        by (simp only: of_int_le_iff less_imp_le)
      then have "(of_int b :: rat) \<le> 10 ^ digits10 b" by simp
      moreover have "(0::rat) < of_int b" using b by simp
      moreover have "(0::rat) \<le> of_int a" using a by simp
      ultimately show ?thesis by (simp add: frac_le)
    qed
    finally show ?thesis by (simp add: x)
  qed
  with adj show ?thesis by (simp split: if_splits)
qed

lemma round28_pos:
  assumes "0 < x"
  shows "0 < round28 x"
proof -
  define e where "e = adjusted x - 27"
  have "pow10 e \<le> pow10 (adjusted x)" by (rule pow10_mono) (simp add: e_def)
  also have "\<dots> \<le> x" by (rule adjusted_le [OF assms])
  finally have "1 \<le> x / pow10 e" by (simp add: pow10_pos le_divide_eq)
  then have "1 \<le> \<lfloor>x / pow10 e\<rfloor>" by simp
  then have "1 \<le> round_half_even (x / pow10 e)"
    by (simp add: round_half_even_def Let_def)
  then have "0 < (of_int (round_half_even (x / pow10 e)) :: rat)" by simp
  with assms show ?thesis
    by (simp add: round28_def e_def Let_def pow10_pos)
qed

lemma round28_minus: "round28 (- x) = - round28 x"
  by (simp add: round28_def Let_def)

lemma round28_neg: "x < 0 \<Longrightarrow> round28 x < 0"
  using round28_pos [of "- x"] by (simp add: round28_minus)

lemma round28_zero: "round28 0 = 0"
  by (simp add: round28_def)

lemma round28_nonneg_iff: "0 \<le> round28 x \<longleftrightarrow> 0 \<le> x"
proof (cases "x < 0")
  case True
  then show ?thesis using round28_neg [of x] by simp
next
  case False
  then have "x = 0 \<or> 0 < x" by auto
  then have "0 \<le> round28 x"
    using round28_pos [of x] round28_zero by auto
  with False show ?thesis by simp
qed

lemma round28_neg_iff: "round28 x < 0 \<longleftrightarrow> x < 0"
  using round28_nonneg_iff [of x] by auto

text \<open>
  The relative error of one rounding is at most half a unit in the 28th digit.
\<close>

lemma round_half_even_error: "\<bar>of_int (round_half_even r) - r\<bar> \<le> (1 / 2 :: rat)"
proof -
  define f where "f = \<lfloor>r\<rfloor>"
  define d where "d = r - of_int f"
  define q where "q = round_half_even r"
  have d0: "0 \<le> d" and d1: "d < 1"
    unfolding d_def f_def by linarith+
  have r: "r = of_int f + d" by (simp add: d_def)
  have "q = (if d < 1 / 2 then f else if 1 / 2 < d then f + 1
             else if even f then f else f + 1)"
    by (simp add: q_def round_half_even_def Let_def f_def d_def)
  then consider "d < 1 / 2" "q = f" | "1 / 2 < d" "q = f + 1" | "d = 1 / 2" "q = f"
    | "d = 1 / 2" "q = f + 1"
    by (auto split: if_splits)
  then have "\<bar>of_int q - r\<bar> \<le> (1 / 2 :: rat)"
  proof cases
    case 1
    with d0 show ?thesis by (simp add: r)
  next
    case 2
    with d1 show ?thesis by (simp add: r)
  next
    case 3
    then show ?thesis by (simp add: r)
  next
    case 4
    then show ?thesis by (simp add: r)
  qed
  then show ?thesis by (simp add: q_def)
qed

lemma pow10_add: "pow10 (a + b) = pow10 a * pow10 b"
  by (simp add: pow10_powi power_int_add)

lemma pow10_nat: "pow10 (int n) = 10 ^ n"
  by (simp add: pow10_def)

lemma round28_error_pos:
  assumes "0 < x"
  shows "\<bar>round28 x - x\<bar> \<le> x * (5 / 10 ^ 28)"
proof -
  define e where "e = adjusted x - 27"
  define y where "y = x / pow10 e"
  define q where "q = round_half_even y"
  have pe: "0 < pow10 e" by (rule pow10_pos)
  have r: "round28 x = of_int q * pow10 e"
    using assms by (simp add: round28_def Let_def e_def y_def q_def)
  have x: "x = y * pow10 e" using pe by (simp add: y_def)
  have "round28 x - x = (of_int q - y) * pow10 e"
    by (simp add: r x [symmetric] algebra_simps)
  then have "\<bar>round28 x - x\<bar> = \<bar>of_int q - y\<bar> * pow10 e"
    using pe by (simp add: abs_mult)
  also have "\<dots> \<le> (1 / 2) * pow10 e"
    using round_half_even_error [of y] pe by (simp add: q_def mult_right_mono)
  also have "\<dots> \<le> (1 / 2) * (x / 10 ^ 27)"
  proof -
    have "adjusted x = e + 27" by (simp add: e_def)
    then have "pow10 (adjusted x) = pow10 e * 10 ^ 27"
      using pow10_add [of e 27] pow10_nat [of 27] by simp
    with adjusted_le [OF assms] have "pow10 e * 10 ^ 27 \<le> x" by simp
    then have "pow10 e \<le> x / 10 ^ 27" by (simp add: le_divide_eq)
    then show ?thesis by simp
  qed
  also have "\<dots> = x * (5 / 10 ^ 28)" by simp
  finally show ?thesis .
qed

lemma round28_error: "\<bar>round28 x - x\<bar> \<le> \<bar>x\<bar> * (5 / 10 ^ 28)"
proof (cases "0 < x")
  case True
  then show ?thesis using round28_error_pos [of x] by simp
next
  case False
  show ?thesis
  proof (cases "x = 0")
    case True
    then show ?thesis by (simp add: round28_zero)
  next
    case nz: False
    with False have "0 < - x" by simp
    from round28_error_pos [OF this] have "\<bar>- round28 x + x\<bar> \<le> - x * (5 / 10 ^ 28)"
      by (simp add: round28_minus)
    moreover have "\<bar>- round28 x + x\<bar> = \<bar>round28 x - x\<bar>" by (simp add: abs_minus_commute)
    moreover have "\<bar>x\<bar> = - x" using False nz by simp
    ultimately show ?thesis by simp
  qed
qed

section \<open>Properties of Money\<close>

lemma Money_Inr_iff: "Money a c = Inr m \<longleftrightarrow> nonneg_decimal a \<and> m = \<lparr> amount = a, currency = c \<rparr>"
  by (cases a) (auto simp: Money_def)

lemma Money_negative:
  "a = NegInfinity \<or> (\<exists>x. a = Finite x \<and> x < 0) \<Longrightarrow>
   Money a c = Inl (ValueError ''Amount cannot be negative'')"
  by (auto simp: Money_def)

lemma round28_abs_le: "\<bar>round28 x\<bar> \<le> \<bar>x\<bar> * (1 + 5 / 10 ^ 28)"
proof -
  have "\<bar>round28 x\<bar> \<le> \<bar>x\<bar> + \<bar>round28 x - x\<bar>" by linarith
  also have "\<dots> \<le> \<bar>x\<bar> + \<bar>x\<bar> * (5 / 10 ^ 28)" using round28_error [of x] by linarith
  finally show ?thesis by (simp add: algebra_simps)
qed

lemma context_round_in_range:
  assumes "in_exponent_range d"
  shows "context_round d = Inr (Finite (round28 d))"
proof (cases "d = 0")
  case True
  then show ?thesis by (simp add: context_round_def round28_zero)
next
  case False
  with assms have lo: "pow10 Emin \<le> \<bar>d\<bar>" and hi: "\<bar>d\<bar> \<le> pow10 Emax"
    by (simp_all add: in_exponent_range_def)
  have "\<bar>round28 d\<bar> \<le> \<bar>d\<bar> * (1 + 5 / 10 ^ 28)" by (rule round28_abs_le)
  also have "\<dots> \<le> pow10 Emax * (1 + 5 / 10 ^ 28)"
    using hi by (intro mult_right_mono) simp_all
  also have "\<dots> < pow10 Emax * 10"
    using pow10_pos [of Emax] by (intro mult_strict_left_mono) simp_all
  also have "\<dots> = pow10 (Emax + 1)"
    using pow10_add [of Emax 1] pow10_nat [of 1] by simp
  finally have "\<not> pow10 (Emax + 1) \<le> \<bar>round28 d\<bar>" by simp
  with False lo show ?thesis by (simp add: context_round_def Let_def)
qed

lemma money_sub_finite:
  assumes cur: "currency x = currency y"
    and ax: "amount x = Finite a" and ay: "amount y = Finite b"
    and rng: "in_exponent_range (a - b)"
  shows "(\<exists>r. money_sub x y = Inr r) \<longleftrightarrow> b \<le> a"
proof -
  have "decimal_sub (amount x) (amount y) = Inr (Finite (round28 (a - b)))"
    using context_round_in_range [OF rng] by (simp add: decimal_sub_def ax ay)
  then have "money_sub x y = Money (Finite (round28 (a - b))) (currency x)"
    using cur by (simp add: money_sub_def)
  then show ?thesis by (simp add: Money_Inr_iff round28_nonneg_iff)
qed

lemma in_exponent_range_moderate:
  assumes "1 \<le> \<bar>d\<bar>" and "\<bar>d\<bar> \<le> 10 ^ 28"
  shows "in_exponent_range d"
proof -
  have "pow10 Emin \<le> pow10 0" by (rule pow10_mono) (simp add: Emin_def)
  then have lo: "pow10 Emin \<le> 1" by (simp add: pow10_def)
  have "pow10 28 \<le> pow10 Emax" by (rule pow10_mono) (simp add: Emax_def)
  then have hi: "10 ^ 28 \<le> pow10 Emax" using pow10_nat [of 28] by simp
  from lo hi assms show ?thesis by (simp add: in_exponent_range_def)
qed

text \<open>
  Claim C10, as stated, fails on two counts. The equality of two Money values of
  different currencies does not fail: it returns \<open>False\<close>. And a subtraction within one
  currency can fail although the first amount is at least the second: an infinite
  amount is accepted by the constructor, and infinity minus infinity is an invalid
  operation.
\<close>

theorem money_claim_fails:
  "Money (Finite 10) ''RUB'' = Inr \<lparr>amount = Finite 10, currency = ''RUB''\<rparr>
   \<and> Money (Finite 10) ''USD'' = Inr \<lparr>amount = Finite 10, currency = ''USD''\<rparr>
   \<and> money_eq \<lparr>amount = Finite 10, currency = ''RUB''\<rparr>
               \<lparr>amount = Finite 10, currency = ''USD''\<rparr> = Inr False
   \<and> Money Infinity ''RUB'' = Inr \<lparr>amount = Infinity, currency = ''RUB''\<rparr>
   \<and> decimal_lt Infinity Infinity = Inr False
   \<and> money_sub \<lparr>amount = Infinity, currency = ''RUB''\<rparr>
               \<lparr>amount = Infinity, currency = ''RUB''\<rparr> = Inl InvalidOperation"
  by (simp add: Money_def money_eq_def money_sub_def decimal_sub_def)


text \<open>
  Claim C10, amended. A Money value is constructed only with an amount that is not
  negative, and every operation that returns a Money value constructs it, so the
  result of an addition, a subtraction or a multiplication has an amount that is not
  negative. For two values of the same currency with finite amounts whose difference
  is zero or within the exponent range of the context, the subtraction succeeds exactly
  when the first amount is at least the second. Between different currencies addition,
  subtraction and the comparisons \<open><\<close> and \<open>>\<close> fail, and the equality returns
  \<open>False\<close>.
\<close>

theorem money_operations:
  "(a = NegInfinity \<or> (\<exists>v. a = Finite v \<and> v < 0)
      \<longrightarrow> Money a c = Inl (ValueError ''Amount cannot be negative''))
   \<and> (Money a c = Inr m \<longrightarrow> nonneg_decimal (amount m))
   \<and> (money_add x y = Inr m \<longrightarrow> nonneg_decimal (amount m))
   \<and> (money_sub x y = Inr m \<longrightarrow> nonneg_decimal (amount m))
   \<and> (money_mul x k = Inr m \<longrightarrow> nonneg_decimal (amount m))
   \<and> (currency x = currency y \<and> amount x = Finite p \<and> amount y = Finite q
        \<and> in_exponent_range (p - q)
      \<longrightarrow> ((\<exists>r. money_sub x y = Inr r) \<longleftrightarrow> q \<le> p))
   \<and> (currency x \<noteq> currency y
      \<longrightarrow> (\<exists>e. money_add x y = Inl e) \<and> (\<exists>e. money_sub x y = Inl e)
          \<and> (\<exists>e. money_lt x y = Inl e) \<and> (\<exists>e. money_gt x y = Inl e))
   \<and> (currency x \<noteq> currency y \<and> nonneg_decimal (amount x) \<and> nonneg_decimal (amount y)
      \<longrightarrow> money_eq x y = Inr False)"
proof (intro conjI impI)
  assume "a = NegInfinity \<or> (\<exists>v. a = Finite v \<and> v < 0)"
  then show "Money a c = Inl (ValueError ''Amount cannot be negative'')"
    by (rule Money_negative)
next
  assume "Money a c = Inr m"
  then show "nonneg_decimal (amount m)" by (simp add: Money_Inr_iff)
next
  assume "money_add x y = Inr m"
  then show "nonneg_decimal (amount m)"
    by (auto simp: money_add_def Money_Inr_iff split: if_splits sum.splits)
next
  assume "money_sub x y = Inr m"
  then show "nonneg_decimal (amount m)"
    by (auto simp: money_sub_def Money_Inr_iff split: if_splits sum.splits)
next
  assume "money_mul x k = Inr m"
  then show "nonneg_decimal (amount m)"
    by (auto simp: money_mul_def Money_Inr_iff split: sum.splits)
next
  assume "currency x = currency y \<and> amount x = Finite p \<and> amount y = Finite q
        \<and> in_exponent_range (p - q)"
  then show "(\<exists>r. money_sub x y = Inr r) \<longleftrightarrow> q \<le> p"
    using money_sub_finite [of x y p q] by simp
next
  assume "currency x \<noteq> currency y"
  then show "\<exists>e. money_add x y = Inl e" by (simp add: money_add_def)
next
  assume "currency x \<noteq> currency y"
  then show "\<exists>e. money_sub x y = Inl e" by (simp add: money_sub_def)
next
  assume "currency x \<noteq> currency y"
  then show "\<exists>e. money_lt x y = Inl e" by (simp add: money_lt_def)
next
  assume "currency x \<noteq> currency y"
  then show "\<exists>e. money_gt x y = Inl e" by (simp add: money_gt_def)
next
  assume "currency x \<noteq> currency y \<and> nonneg_decimal (amount x) \<and> nonneg_decimal (amount y)"
  then show "money_eq x y = Inr False"
    by (cases "amount x"; cases "amount y") (simp_all add: money_eq_def)
qed

theorem money_operations_witness:
  "Money (Finite (- 1)) ''RUB'' = Inl (ValueError ''Amount cannot be negative'')
   \<and> Money (Finite 10) ''RUB'' = Inr \<lparr>amount = Finite 10, currency = ''RUB''\<rparr>
   \<and> money_add \<lparr>amount = Finite 10, currency = ''RUB''\<rparr> \<lparr>amount = Finite 3, currency = ''RUB''\<rparr>
       = Inr \<lparr>amount = Finite 13, currency = ''RUB''\<rparr>
   \<and> money_sub \<lparr>amount = Finite 10, currency = ''RUB''\<rparr> \<lparr>amount = Finite 3, currency = ''RUB''\<rparr>
       = Inr \<lparr>amount = Finite 7, currency = ''RUB''\<rparr>
   \<and> money_mul \<lparr>amount = Finite 10, currency = ''RUB''\<rparr> (Finite 2)
       = Inr \<lparr>amount = Finite 20, currency = ''RUB''\<rparr>
   \<and> nonneg_decimal (Finite 13) \<and> nonneg_decimal (Finite 7) \<and> nonneg_decimal (Finite 20)
   \<and> in_exponent_range (10 - 3) \<and> in_exponent_range (3 - 10)
   \<and> (\<exists>e. money_sub \<lparr>amount = Finite 3, currency = ''RUB''\<rparr>
              \<lparr>amount = Finite 10, currency = ''RUB''\<rparr> = Inl e)
   \<and> (\<exists>e. money_add \<lparr>amount = Finite 10, currency = ''RUB''\<rparr>
              \<lparr>amount = Finite 3, currency = ''USD''\<rparr> = Inl e)
   \<and> (\<exists>e. money_gt \<lparr>amount = Finite 10, currency = ''RUB''\<rparr>
              \<lparr>amount = Finite 3, currency = ''USD''\<rparr> = Inl e)
   \<and> money_eq \<lparr>amount = Finite 10, currency = ''RUB''\<rparr>
               \<lparr>amount = Finite 10, currency = ''USD''\<rparr> = Inr False"
proof -
  let ?r10 = "\<lparr>amount = Finite 10, currency = ''RUB''\<rparr>"
  let ?r3 = "\<lparr>amount = Finite 3, currency = ''RUB''\<rparr>"
  let ?u3 = "\<lparr>amount = Finite 3, currency = ''USD''\<rparr>"
  let ?u10 = "\<lparr>amount = Finite 10, currency = ''USD''\<rparr>"
  have r: "round28 13 = 13" "round28 7 = 7" "round28 20 = 20" by code_simp+
  have rng: "in_exponent_range 13" "in_exponent_range 7" "in_exponent_range 20"
    "in_exponent_range (- 7)"
    by (rule in_exponent_range_moderate; simp)+
  have neg: "Money (Finite (- 1)) ''RUB'' = Inl (ValueError ''Amount cannot be negative'')"
    using money_operations [of "Finite (- 1)" "''RUB''"] by simp
  have mk: "Money (Finite 10) ''RUB'' = Inr ?r10" by (simp add: Money_def)
  have add: "money_add ?r10 ?r3 = Inr \<lparr>amount = Finite 13, currency = ''RUB''\<rparr>"
    using context_round_in_range [OF rng(1)] by (simp add: money_add_def r Money_def)
  have sub: "money_sub ?r10 ?r3 = Inr \<lparr>amount = Finite 7, currency = ''RUB''\<rparr>"
    using context_round_in_range [OF rng(2)]
    by (simp add: money_sub_def decimal_sub_def r Money_def)
  have mul: "money_mul ?r10 (Finite 2) = Inr \<lparr>amount = Finite 20, currency = ''RUB''\<rparr>"
    using context_round_in_range [OF rng(3)] by (simp add: money_mul_def r Money_def)
  have inv: "nonneg_decimal (Finite 13)" "nonneg_decimal (Finite 7)" "nonneg_decimal (Finite 20)"
    using money_operations [of "Finite 10" "''RUB''" "\<lparr>amount = Finite 13, currency = ''RUB''\<rparr>"
        ?r10 ?r3] add
      money_operations [of "Finite 10" "''RUB''" "\<lparr>amount = Finite 7, currency = ''RUB''\<rparr>"
        ?r10 ?r3] sub
      money_operations [of "Finite 10" "''RUB''" "\<lparr>amount = Finite 20, currency = ''RUB''\<rparr>"
        ?r10 ?r3 "Finite 2"] mul
    by simp_all
  have no: "\<not> (\<exists>r. money_sub ?r3 ?r10 = Inr r)"
    using money_operations [of "Finite 10" "''RUB''" ?r10 ?r3 ?r10 "Finite 2" 3 10] rng(4)
    by simp
  then have fails: "\<exists>e. money_sub ?r3 ?r10 = Inl e"
    by (cases "money_sub ?r3 ?r10") auto
  have cross: "\<exists>e. money_add ?r10 ?u3 = Inl e" "\<exists>e. money_gt ?r10 ?u3 = Inl e"
    using money_operations [of "Finite 10" "''RUB''" ?r10 ?r10 ?u3] by simp_all
  have eq: "money_eq ?r10 ?u10 = Inr False"
    using money_operations [of "Finite 10" "''RUB''" ?r10 ?r10 ?u10] by simp
  from rng have rng': "in_exponent_range (10 - 3)" "in_exponent_range (3 - 10)" by simp_all
  from neg mk add sub mul inv rng' fails cross eq show ?thesis by blast
qed

section \<open>Properties of the prorated amount\<close>

lemma round28_nonpos_iff: "round28 x \<le> 0 \<longleftrightarrow> x \<le> 0"
  using round28_nonneg_iff [of "- x"] by (simp add: round28_minus)

lemma dec_mul_nonneg: "0 \<le> a \<Longrightarrow> 0 \<le> b \<Longrightarrow> 0 \<le> dec_mul a b"
  by (simp add: dec_mul_def round28_nonneg_iff)

lemma dec_mul_nonpos: "0 \<le> a \<Longrightarrow> b \<le> 0 \<Longrightarrow> dec_mul a b \<le> 0"
  by (simp add: dec_mul_def round28_nonpos_iff mult_nonneg_nonpos)

lemma prorated_amount_never_negative:
  "calculate_prorated_amount now s current_plan new_plan = Inr a \<Longrightarrow> 0 \<le> a"
  by (auto simp: calculate_prorated_amount_def Let_def split: sum.splits)

lemma prorated_amount_zero_period:
  "days_of (current_period_end s - current_period_start s) = 0 \<Longrightarrow>
   \<exists>e. calculate_prorated_amount now s current_plan new_plan = Inl e"
  by (simp add: calculate_prorated_amount_def dec_div_def Let_def)

text \<open>
  The error of the rounded computation \<open>round(round(p / T) \<cdot> V)\<close>, and of the whole
  prorated amount inside the period, against the exact values.
\<close>

lemma scaled_error:
  fixes p T V u :: rat
  assumes p: "0 \<le> p" and T: "0 < T" and V: "0 \<le> V" and u: "u = 5 / 10 ^ 28"
  shows "\<bar>round28 (round28 (p / T) * V) - p / T * V\<bar> \<le> (p / T * V) * (2 * u + u * u)"
    and "0 \<le> round28 (round28 (p / T) * V)"
proof -
  define r where "r = p / T"
  define r' where "r' = round28 r"
  define m where "m = round28 (r' * V)"
  have u0: "0 \<le> u" by (simp add: u)
  have r0: "0 \<le> r" using p T by (simp add: r_def)
  have r'0: "0 \<le> r'" using r0 by (simp add: r'_def round28_nonneg_iff)
  have e1: "\<bar>r' - r\<bar> \<le> r * u"
    using round28_error [of r] r0 by (simp add: r'_def u)
  then have up: "r' \<le> r * (1 + u)" by (simp add: algebra_simps)
  have e2: "\<bar>m - r' * V\<bar> \<le> r' * V * u"
    using round28_error [of "r' * V"] r'0 V by (simp add: m_def u abs_mult)
  have "r' * V * u \<le> r * (1 + u) * V * u"
    using up V u0 by (simp add: mult_right_mono)
  with e2 have e2': "\<bar>m - r' * V\<bar> \<le> r * (1 + u) * V * u" by linarith
  have "\<bar>r' * V - r * V\<bar> = \<bar>r' - r\<bar> * V"
    using V by (simp add: abs_mult left_diff_distrib [symmetric])
  also have "\<dots> \<le> r * u * V" using e1 V by (simp add: mult_right_mono)
  finally have e3: "\<bar>r' * V - r * V\<bar> \<le> r * u * V" .
  have "\<bar>m - r * V\<bar> \<le> \<bar>m - r' * V\<bar> + \<bar>r' * V - r * V\<bar>" by linarith
  also have "\<dots> \<le> r * (1 + u) * V * u + r * u * V" using e2' e3 by linarith
  also have "\<dots> = (r * V) * (2 * u + u * u)" by (simp add: algebra_simps)
  finally show "\<bar>round28 (round28 (p / T) * V) - p / T * V\<bar> \<le> (p / T * V) * (2 * u + u * u)"
    by (simp add: m_def r'_def r_def)
  show "0 \<le> round28 (round28 (p / T) * V)"
    using r'0 V by (simp add: r'_def r_def round28_nonneg_iff)
qed

lemma prorate_in_period_error:
  fixes c n T U :: rat
  assumes c: "0 \<le> c" and n: "0 \<le> n" and T: "0 < T" and U0: "0 \<le> U" and UT: "U \<le> T"
  shows "\<bar>max (round28 (round28 (round28 (n / T) * (T - U)) - round28 (round28 (c / T) * U))) 0
           - max 0 (n / T * (T - U) - c / T * U)\<bar>
         \<le> (c + n) * (2 / 10 ^ 27)"
proof -
  define u :: rat where "u = 5 / 10 ^ 28"
  define A where "A = n / T * (T - U)"
  define B where "B = c / T * U"
  define due where "due = round28 (round28 (n / T) * (T - U))"
  define paid where "paid = round28 (round28 (c / T) * U)"
  define k where "k = 2 * u + u * u"
  have u0: "0 \<le> u" and k0: "0 \<le> k" by (simp_all add: u_def k_def)
  have R0: "0 \<le> T - U" using UT by simp
  have A0: "0 \<le> A" using n T R0 by (simp add: A_def)
  have B0: "0 \<le> B" using c T U0 by (simp add: B_def)
  have An: "A \<le> n"
  proof -
    have "(T - U) / T \<le> 1" using T U0 by (simp add: divide_le_eq)
    then have "n * ((T - U) / T) \<le> n * 1" using n by (rule mult_left_mono)
    then show ?thesis by (simp add: A_def)
  qed
  have Bc: "B \<le> c"
  proof -
    have "U / T \<le> 1" using T UT by (simp add: divide_le_eq)
    then have "c * (U / T) \<le> c * 1" using c by (rule mult_left_mono)
    then show ?thesis by (simp add: B_def)
  qed
  have ed: "\<bar>due - A\<bar> \<le> A * k" and due0: "0 \<le> due"
    using scaled_error [OF n T R0 u_def] by (simp_all add: due_def A_def k_def)
  have ep: "\<bar>paid - B\<bar> \<le> B * k" and paid0: "0 \<le> paid"
    using scaled_error [OF c T U0 u_def] by (simp_all add: paid_def B_def k_def)
  have "\<bar>round28 (due - paid) - (due - paid)\<bar> \<le> \<bar>due - paid\<bar> * u"
    using round28_error [of "due - paid"] by (simp add: u_def)
  also have "\<dots> \<le> (due + paid) * u"
    using due0 paid0 u0 by (intro mult_right_mono) auto
  also have "\<dots> \<le> (A * (1 + k) + B * (1 + k)) * u"
  proof -
    from ed have "due \<le> A * (1 + k)" by (simp add: algebra_simps)
    moreover from ep have "paid \<le> B * (1 + k)" by (simp add: algebra_simps)
    ultimately show ?thesis using u0 by (intro mult_right_mono) auto
  qed
  finally have e5: "\<bar>round28 (due - paid) - (due - paid)\<bar> \<le> (A + B) * ((1 + k) * u)"
    by (simp add: algebra_simps)
  have "\<bar>round28 (due - paid) - (A - B)\<bar>
          \<le> \<bar>round28 (due - paid) - (due - paid)\<bar> + \<bar>due - A\<bar> + \<bar>paid - B\<bar>"
    by linarith
  also have "\<dots> \<le> (A + B) * ((1 + k) * u) + A * k + B * k"
    using e5 ed ep by linarith
  also have "\<dots> = (A + B) * ((1 + k) * u + k)" by (simp add: algebra_simps)
  also have "\<dots> \<le> (A + B) * (2 / 10 ^ 27)"
  proof -
    have "(1 + k) * u + k \<le> 2 / 10 ^ 27" by (simp add: k_def u_def)
    moreover have "0 \<le> A + B" using A0 B0 by simp
    ultimately show ?thesis by (rule mult_left_mono)
  qed
  also have "\<dots> \<le> (c + n) * (2 / 10 ^ 27)"
    using An Bc by (intro mult_right_mono) auto
  finally have "\<bar>round28 (due - paid) - (A - B)\<bar> \<le> (c + n) * (2 / 10 ^ 27)" .
  moreover have "\<bar>max (round28 (due - paid)) 0 - max 0 (A - B)\<bar>
                   \<le> \<bar>round28 (due - paid) - (A - B)\<bar>"
    by (simp add: max_def abs_if)
  ultimately show ?thesis by (simp add: due_def paid_def A_def B_def)
qed

text \<open>
  Claim C6, as stated, fails on two counts. The code does not clamp the days used: when
  the clock reads a time before the start of the period (day 0 for a period from day 5
  to day 35) the days used are -5 and the days remaining 35, and the code charges
  3 \<cdot> 35 + 1 \<cdot> 5 = 110 where the clamped formula gives 3 \<cdot> 30 = 90. And the code
  computes in decimal arithmetic, rounding every quotient, product and difference to 28
  significant digits: on day 10 of 30, from a plan at 100 to a plan at 200, it returns
  99.99999999999999999999999997 where the formula gives 100.
\<close>

theorem prorated_amount_differs_from_formula:
  "calculate_prorated_amount 0 (example_subscription 1 ''active'' 0) plan_basic plan_premium
     = Inr 110
   \<and> prorate_claimed 0 (example_subscription 1 ''active'' 0) plan_basic plan_premium = 90
   \<and> calculate_prorated_amount (timedelta_days 15) (example_subscription 1 ''active'' 0)
        (example_plan 1 ''Basic'' 100 0 3) (example_plan 2 ''Premium'' 200 0 3)
     = Inr (9999999999999999999999999997 / 100000000000000000000000000)
   \<and> prorate_claimed (timedelta_days 15) (example_subscription 1 ''active'' 0)
        (example_plan 1 ''Basic'' 100 0 3) (example_plan 2 ''Premium'' 200 0 3) = 100"
proof -
  have a: "calculate_prorated_amount 0 (example_subscription 1 ''active'' 0)
             plan_basic plan_premium = Inr 110"
    by code_simp
  have b: "prorate_claimed 0 (example_subscription 1 ''active'' 0) plan_basic plan_premium
             = 90"
    by code_simp
  have c: "calculate_prorated_amount (timedelta_days 15) (example_subscription 1 ''active'' 0)
        (example_plan 1 ''Basic'' 100 0 3) (example_plan 2 ''Premium'' 200 0 3)
     = Inr (9999999999999999999999999997 / 100000000000000000000000000)"
    by code_simp
  have d: "prorate_claimed (timedelta_days 15) (example_subscription 1 ''active'' 0)
        (example_plan 1 ''Basic'' 100 0 3) (example_plan 2 ''Premium'' 200 0 3) = 100"
    by code_simp
  from a b c d show ?thesis by simp
qed

text \<open>
  Claim C6, amended. For a period of at least one day, a clock that is not before the
  start of the period and plan prices that are not negative, the prorated amount is
  computed, is never negative, differs from the clamped formula by no more than
  \<open>2 \<cdot> 10\<^sup>-\<^sup>2\<^sup>7\<close> times the sum of the two prices, and is 0, as the formula is, when
  no day remains.
\<close>

theorem prorated_amount_close_to_formula:
  assumes total: "0 < days_of (current_period_end s - current_period_start s)"
    and started: "current_period_start s \<le> now"
    and cur: "0 \<le> price current_plan" and new: "0 \<le> price new_plan"
  shows "\<exists>a. calculate_prorated_amount now s current_plan new_plan = Inr a
           \<and> 0 \<le> a
           \<and> \<bar>a - prorate_claimed now s current_plan new_plan\<bar>
               \<le> (price current_plan + price new_plan) * (2 / 10 ^ 27)
           \<and> (days_of (current_period_end s - current_period_start s)
                 \<le> days_of (now - current_period_start s)
               \<longrightarrow> a = 0 \<and> prorate_claimed now s current_plan new_plan = 0)"
proof -
  define total where "total = days_of (current_period_end s - current_period_start s)"
  define used where "used = days_of (now - current_period_start s)"
  define c where "c = price current_plan"
  define n where "n = price new_plan"
  define T :: rat where "T = of_int total"
  define U :: rat where "U = of_int used"
  define a where
    "a = max (round28 (round28 (round28 (n / T) * (T - U)) - round28 (round28 (c / T) * U))) 0"
  have tpos: "0 < total" using total by (simp add: total_def)
  have upos: "0 \<le> used" using started by (simp add: used_def days_of_def)
  have T0: "0 < T" using tpos by (simp add: T_def)
  have U0: "0 \<le> U" using upos by (simp add: U_def)
  have c0: "0 \<le> c" using cur by (simp add: c_def)
  have n0: "0 \<le> n" using new by (simp add: n_def)
  have code: "calculate_prorated_amount now s current_plan new_plan = Inr a"
    using tpos
    by (simp add: calculate_prorated_amount_def dec_div_def dec_mul_def dec_sub_def Let_def
        total_def [symmetric] used_def [symmetric] a_def T_def U_def c_def n_def)
  have a0: "0 \<le> a" by (simp add: a_def)
  have exact: "prorate_claimed now s current_plan new_plan
      = max 0 (n / T * of_int (total - max 0 (min total used))
                 - c / T * of_int (max 0 (min total used)))"
    by (simp add: prorate_claimed_def Let_def total_def [symmetric] used_def [symmetric]
        T_def c_def n_def)
  show ?thesis
  proof (cases "used \<le> total")
    case True
    with upos have cl: "max 0 (min total used) = used" by simp
    from True have UT: "U \<le> T" by (simp add: U_def T_def)
    have ex: "prorate_claimed now s current_plan new_plan = max 0 (n / T * (T - U) - c / T * U)"
      by (simp add: exact cl T_def U_def)
    have bound: "\<bar>a - prorate_claimed now s current_plan new_plan\<bar> \<le> (c + n) * (2 / 10 ^ 27)"
      unfolding ex a_def by (rule prorate_in_period_error [OF c0 n0 T0 U0 UT])
    have zero: "a = 0 \<and> prorate_claimed now s current_plan new_plan = 0" if "total \<le> used"
    proof -
      from that True have "U = T" by (simp add: U_def T_def)
      then have b0: "\<bar>a - prorate_claimed now s current_plan new_plan\<bar> \<le> (c + n) * (2 / 10 ^ 27)"
        using bound by simp
      have e0: "prorate_claimed now s current_plan new_plan = 0"
        using \<open>U = T\<close> T0 c0 by (simp add: ex)
      have x: "round28 (round28 (n / T) * (T - U)) = 0"
        using \<open>U = T\<close> by (simp add: round28_zero)
      have y: "0 \<le> round28 (round28 (c / T) * U)"
        using scaled_error(2) [OF c0 T0 U0 refl] .
      from x y
      have "round28 (round28 (n / T) * (T - U)) - round28 (round28 (c / T) * U) \<le> 0"
        by linarith
      then have "round28 (round28 (round28 (n / T) * (T - U))
                         - round28 (round28 (c / T) * U)) \<le> 0"
        by (simp only: round28_nonpos_iff)
      then have "a = 0" by (simp add: a_def)
      with e0 show ?thesis by simp
    qed
    from code a0 bound zero show ?thesis
      by (auto simp: c_def n_def total_def used_def)
  next
    case False
    then have over: "total \<le> used" by simp
    then have UT: "T \<le> U" by (simp add: U_def T_def)
    from False tpos have cl: "max 0 (min total used) = total" by simp
    have e0: "prorate_claimed now s current_plan new_plan = 0"
      using T0 c0 by (simp add: exact cl T_def [symmetric])
    have "round28 (n / T) * (T - U) \<le> 0"
      using n0 T0 UT by (simp add: mult_nonneg_nonpos round28_nonneg_iff)
    then have x: "round28 (round28 (n / T) * (T - U)) \<le> 0"
      by (simp only: round28_nonpos_iff)
    have y: "0 \<le> round28 (round28 (c / T) * U)"
      using scaled_error(2) [OF c0 T0 U0 refl] .
    from x y have "round28 (round28 (n / T) * (T - U)) - round28 (round28 (c / T) * U) \<le> 0"
      by linarith
    then have "round28 (round28 (round28 (n / T) * (T - U))
                         - round28 (round28 (c / T) * U)) \<le> 0"
      by (simp only: round28_nonpos_iff)
    then have az: "a = 0" by (simp add: a_def)
    have "0 \<le> (c + n) * (2 / 10 ^ 27)" using c0 n0 by simp
    with code az e0 show ?thesis by (simp add: c_def n_def)
  qed
qed

theorem prorated_amount_close_to_formula_witness:
  "0 < days_of (current_period_end (example_subscription 1 ''active'' 0)
                 - current_period_start (example_subscription 1 ''active'' 0))
   \<and> current_period_start (example_subscription 1 ''active'' 0) \<le> timedelta_days 15
   \<and> 0 \<le> price plan_basic \<and> 0 \<le> price plan_premium
   \<and> (\<exists>a. calculate_prorated_amount (timedelta_days 15) (example_subscription 1 ''active'' 0)
              plan_basic plan_premium = Inr a
          \<and> 0 \<le> a
          \<and> \<bar>a - 50\<bar> \<le> 120 * (2 / 10 ^ 27))
   \<and> days_of (current_period_end (example_subscription 1 ''active'' 0)
                 - current_period_start (example_subscription 1 ''active'' 0))
       \<le> days_of (timedelta_days 40 - current_period_start (example_subscription 1 ''active'' 0))
   \<and> calculate_prorated_amount (timedelta_days 40) (example_subscription 1 ''active'' 0)
        plan_basic plan_premium = Inr 0"
proof -
  let ?s = "example_subscription 1 ''active'' 0"
  have h1: "0 < days_of (current_period_end ?s - current_period_start ?s)"
    by (simp add: example_subscription_def timedelta_days_def days_of_def)
  have h2: "current_period_start ?s \<le> timedelta_days 15"
    by (simp add: example_subscription_def timedelta_days_def)
  have h2': "current_period_start ?s \<le> timedelta_days 40"
    by (simp add: example_subscription_def timedelta_days_def)
  have h3: "0 \<le> price plan_basic" by (simp add: plan_basic_def example_plan_def)
  have h4: "0 \<le> price plan_premium" by (simp add: plan_premium_def example_plan_def)
  have h5: "days_of (current_period_end ?s - current_period_start ?s)
              \<le> days_of (timedelta_days 40 - current_period_start ?s)"
    by (simp add: example_subscription_def timedelta_days_def days_of_def)
  have v: "prorate_claimed (timedelta_days 15) ?s plan_basic plan_premium = 50"
    by code_simp
  have p: "price plan_basic + price plan_premium = 120"
    by (simp add: plan_basic_def plan_premium_def example_plan_def)
  from prorated_amount_close_to_formula [OF h1 h2 h3 h4]
  have first: "\<exists>a. calculate_prorated_amount (timedelta_days 15) ?s plan_basic plan_premium
                  = Inr a \<and> 0 \<le> a \<and> \<bar>a - 50\<bar> \<le> 120 * (2 / 10 ^ 27)"
    unfolding v p by blast
  from prorated_amount_close_to_formula [OF h1 h2' h3 h4] h5
  have second: "calculate_prorated_amount (timedelta_days 40) ?s plan_basic plan_premium
                  = Inr 0"
    by auto
  from h1 h2 h3 h4 h5 first second show ?thesis by blast
qed

section \<open>Properties of creation\<close>

lemma get_plan_find:
  "get_plan w pid = Inr p \<Longrightarrow> find (\<lambda>q. plan_id q = pid) (plans w) = Some p"
  by (auto simp: get_plan_def split: option.splits if_splits)

text \<open>
  Claim C2, as stated, fails in one point: a subscription created on a plan with a
  trial gets the status \<open>active\<close>, not \<open>trial\<close>. The plan of the example has a trial of
  7 days.
\<close>

theorem create_with_trial_status_not_trial:
  "0 < trial_period_days plan_trial
   \<and> get_plan (example_world []) 3 = Inr plan_trial
   \<and> map status (subscriptions (snd
        (create_subscription always_paid 0 11 1 3 ''pm1'' None (example_world []))))
       = [''active'']
   \<and> ''active'' \<noteq> ''trial''"
proof -
  have a: "map status (subscriptions (snd
        (create_subscription always_paid 0 11 1 3 ''pm1'' None (example_world []))))
       = [''active'']"
    by code_simp
  have b: "get_plan (example_world []) 3 = Inr plan_trial" by code_simp
  have c: "0 < trial_period_days plan_trial" by code_simp
  from a b c show ?thesis by simp
qed

text \<open>
  Claim C2, amended. When the user has no blocking subscription and the plan is found
  with \<open>trial_period_days > 0\<close>, the creation succeeds: the new subscription has the
  status \<open>active\<close>, \<open>trial_end = now + trial_period_days\<close> and
  \<open>current_period_end = now + billing_cycle_days\<close>; the payment processor is not called
  and the result carries no transaction.
\<close>

theorem create_with_trial:
  assumes none: "get_active_subscription w uid = None"
    and pl: "get_plan w pid = Inr p"
    and trial: "0 < trial_period_days p"
  shows "\<exists>r w' s. create_subscription processor now new_id uid pid pm promo_code w = (Inr r, w')
           \<and> subscriptions w' = subscriptions w @ [s]
           \<and> sub_id s = new_id \<and> user_id s = uid \<and> sub_plan_id s = pid
           \<and> status s = ''active''
           \<and> current_period_start s = now
           \<and> trial_end s = Some (now + timedelta_days (trial_period_days p))
           \<and> current_period_end s = now + timedelta_days (billing_cycle_days p)
           \<and> payment_calls w' = payment_calls w
           \<and> cr_subscription_id r = new_id
           \<and> cr_transaction_id r = None
           \<and> cr_trial_ends_at r = Some (now + timedelta_days (trial_period_days p))
           \<and> cr_next_billing_date r = now + timedelta_days (billing_cycle_days p)"
  using none pl trial get_plan_find [OF pl]
  by (simp add: create_subscription_def Let_def setup_trial_period_def
      create_subscription_record_def send_subscription_created_notifications_def
      subscription_plan_def send_notification_def)

theorem create_with_trial_witness:
  "get_active_subscription (example_world []) 1 = None
   \<and> get_plan (example_world []) 3 = Inr plan_trial
   \<and> 0 < trial_period_days plan_trial
   \<and> (\<exists>r w' s. create_subscription always_paid 0 11 1 3 ''pm1'' None (example_world [])
                   = (Inr r, w')
         \<and> subscriptions w' = subscriptions (example_world []) @ [s]
         \<and> status s = ''active''
         \<and> trial_end s = Some (timedelta_days 7)
         \<and> current_period_end s = timedelta_days 30
         \<and> payment_calls w' = []
         \<and> cr_transaction_id r = None)"
proof -
  have a: "get_active_subscription (example_world []) 1 = None" by code_simp
  have b: "get_plan (example_world []) 3 = Inr plan_trial" by code_simp
  have c: "0 < trial_period_days plan_trial" by code_simp
  have d: "trial_period_days plan_trial = 7" "billing_cycle_days plan_trial = 30"
    "payment_calls (example_world []) = []"
    by (simp_all add: plan_trial_def example_plan_def example_world_def)
  from create_with_trial [OF a b c, of always_paid 0 11 "''pm1''" None]
  obtain r w' s where
    "create_subscription always_paid 0 11 1 3 ''pm1'' None (example_world []) = (Inr r, w')"
    "subscriptions w' = subscriptions (example_world []) @ [s]"
    "status s = ''active''"
    "trial_end s = Some (0 + timedelta_days (trial_period_days plan_trial))"
    "current_period_end s = 0 + timedelta_days (billing_cycle_days plan_trial)"
    "payment_calls w' = payment_calls (example_world [])"
    "cr_transaction_id r = None"
    by blast
  with a b c d show ?thesis by auto
qed






section \<open>Properties of the upgrade\<close>

lemma find_sub_id:
  "find (\<lambda>r. sub_id r = sid) xs = Some s \<Longrightarrow> sub_id s = sid"
  by (induction xs) (auto split: if_splits)

lemma get_subscription_sub_id: "get_subscription w sid = Inr s \<Longrightarrow> sub_id s = sid"
  by (auto simp: get_subscription_def split: option.splits dest: find_sub_id)

lemma find_after_replace:
  "find (\<lambda>r. sub_id r = sid) xs = Some s \<Longrightarrow> sub_id s' = sid \<Longrightarrow>
   find (\<lambda>r. sub_id r = sid) (map (\<lambda>r. if sub_id r = sub_id s' then s' else r) xs) = Some s'"
  by (induction xs) (auto split: if_splits)

lemma get_subscription_after_update:
  "get_subscription w sid = Inr s \<Longrightarrow> sub_id s' = sid \<Longrightarrow>
   get_subscription (update_subscription s' w) sid = Inr s'"
  by (auto simp: get_subscription_def update_subscription_def find_after_replace
      split: option.splits)

lemma get_subscription_cong:
  "subscriptions w' = subscriptions w \<Longrightarrow> get_subscription w' sid = get_subscription w sid"
  by (simp add: get_subscription_def)

lemma get_plan_cong: "plans w' = plans w \<Longrightarrow> get_plan w' pid = get_plan w pid"
  by (simp add: get_plan_def)

lemma upgrade_rejected:
  assumes "get_subscription w sid = Inr s"
    and "subscription_plan w s = Some current_plan"
    and "get_plan w new_plan_id = Inr new_plan"
    and "price new_plan \<le> price current_plan"
  shows "upgrade_subscription processor now sid new_plan_id w
           = (Inl (SubscriptionError ''New plan must be more expensive for upgrade''), w)"
  using assms by (simp add: upgrade_subscription_def validate_upgrade_def)

lemma plans_update_subscription [simp]: "plans (update_subscription s w) = plans w"
  by (simp add: update_subscription_def)

lemma plans_send_notification [simp]: "plans (send_notification n w) = plans w"
  by (simp add: send_notification_def)

lemma subscriptions_send_notification [simp]:
  "subscriptions (send_notification n w) = subscriptions w"
  by (simp add: send_notification_def)

lemma upgrade_success_facts:
  assumes sub: "get_subscription w sid = Inr s"
    and ok: "upgrade_subscription processor now sid new_plan_id w = (Inr r, w')"
  shows "\<exists>current_plan new_plan.
           subscription_plan w s = Some current_plan
         \<and> get_plan w new_plan_id = Inr new_plan
         \<and> price current_plan < price new_plan
         \<and> plans w' = plans w
         \<and> get_subscription w' sid = Inr (s\<lparr>sub_plan_id := new_plan_id, retry_count := 0\<rparr>)"
proof -
  from sub have sid: "sub_id s = sid" by (rule get_subscription_sub_id)
  let ?s' = "s\<lparr>sub_plan_id := new_plan_id, retry_count := 0\<rparr>"
  obtain np where np: "get_plan w new_plan_id = Inr np"
    using ok sub by (cases "get_plan w new_plan_id") (simp_all add: upgrade_subscription_def)
  obtain cp where cp: "subscription_plan w s = Some cp"
    using ok sub np by (cases "subscription_plan w s") (simp_all add: upgrade_subscription_def)
  have lt: "price cp < price np"
    using ok sub np cp
    by (cases "price np \<le> price cp") (simp_all add: upgrade_subscription_def validate_upgrade_def)
  then have val: "validate_upgrade cp np = Inr ()" by (simp add: validate_upgrade_def)
  obtain a where a: "calculate_prorated_amount now s cp np = Inr a"
    using ok sub np cp val
    by (cases "calculate_prorated_amount now s cp np") (simp_all add: upgrade_subscription_def)
  let ?call = "\<lparr> pc_user_id = user_id s, pc_amount = a,
                 pc_payment_method_id = payment_method_id s,
                 pc_description = ''Upgrade from '' @ plan_name cp @ '' to '' @ plan_name np \<rparr>"
  let ?n = "\<lparr> n_user_id = user_id s, n_event_type = ''upgrade_completed'',
              n_data = UpgradeData (plan_name cp) (plan_name np) a \<rparr>"
  have upd: "get_subscription (send_notification ?n (update_subscription ?s' v)) sid = Inr ?s'"
    if "subscriptions v = subscriptions w" for v
  proof -
    from sub have "get_subscription v sid = Inr s"
      by (simp only: get_subscription_cong [OF that])
    then have "get_subscription (update_subscription ?s' v) sid = Inr ?s'"
      by (rule get_subscription_after_update) (simp add: sid)
    then show ?thesis
      by (simp only: get_subscription_cong [OF subscriptions_send_notification])
  qed
  have "\<exists>v. subscriptions v = subscriptions w \<and> plans v = plans w
          \<and> w' = send_notification ?n (update_subscription ?s' v)"
  proof (cases "0 < a")
    case True
    obtain t where t: "processor ?call = Inr t"
      using ok sub np cp val a True
      by (cases "processor ?call")
        (simp_all add: upgrade_subscription_def process_payment_def Let_def)
    from ok sub np cp val a True t
    have "w' = send_notification ?n
                 (update_subscription ?s' (w\<lparr>payment_calls := payment_calls w @ [?call]\<rparr>))"
      by (simp add: upgrade_subscription_def process_payment_def Let_def
          update_subscription_plan_def)
    then show ?thesis
      by (intro exI [of _ "w\<lparr>payment_calls := payment_calls w @ [?call]\<rparr>"]) simp
  next
    case False
    with ok sub np cp val a
    have "w' = send_notification ?n (update_subscription ?s' w)"
      by (simp add: upgrade_subscription_def Let_def update_subscription_plan_def)
    then show ?thesis by (intro exI [of _ w]) simp
  qed
  then obtain v where v: "subscriptions v = subscriptions w" "plans v = plans w"
    "w' = send_notification ?n (update_subscription ?s' v)" by blast
  from v have "plans w' = plans w" by simp
  moreover from upd [OF v(1)] v(3) have "get_subscription w' sid = Inr ?s'" by simp
  ultimately show ?thesis using cp np lt by blast
qed

text \<open>
  Claim C5, as stated, fails in its first condition: the upgrade does not look at the
  state of the subscription. A cancelled subscription on the plan at 30 is upgraded to
  the plan at 90 on day 10 of its period: the operation succeeds, 50 is charged and the
  plan is swapped.
\<close>

theorem upgrade_of_cancelled_subscription:
  "status (example_subscription 1 ''cancelled'' 0) = ''cancelled''
   \<and> fst (upgrade_subscription always_paid (timedelta_days 15) 10 2
             (example_world [example_subscription 1 ''cancelled'' 0]))
       = Inr \<lparr> ur_success = True, ur_subscription_id = 10, ur_transaction_id = Some 77,
               ur_prorated_amount = 50, ur_new_plan = ''Premium'' \<rparr>
   \<and> map sub_plan_id (subscriptions (snd
         (upgrade_subscription always_paid (timedelta_days 15) 10 2
            (example_world [example_subscription 1 ''cancelled'' 0])))) = [2]
   \<and> map pc_amount (payment_calls (snd
         (upgrade_subscription always_paid (timedelta_days 15) 10 2
            (example_world [example_subscription 1 ''cancelled'' 0])))) = [50]"
proof -
  have a: "status (example_subscription 1 ''cancelled'' 0) = ''cancelled''"
    by (simp add: example_subscription_def)
  have b: "fst (upgrade_subscription always_paid (timedelta_days 15) 10 2
             (example_world [example_subscription 1 ''cancelled'' 0]))
       = Inr \<lparr> ur_success = True, ur_subscription_id = 10, ur_transaction_id = Some 77,
               ur_prorated_amount = 50, ur_new_plan = ''Premium'' \<rparr>"
    by code_simp
  have c: "map sub_plan_id (subscriptions (snd
         (upgrade_subscription always_paid (timedelta_days 15) 10 2
            (example_world [example_subscription 1 ''cancelled'' 0])))) = [2]"
    by code_simp
  have d: "map pc_amount (payment_calls (snd
         (upgrade_subscription always_paid (timedelta_days 15) 10 2
            (example_world [example_subscription 1 ''cancelled'' 0])))) = [50]"
    by code_simp
  from a b c d show ?thesis by simp
qed

text \<open>
  Claim C5, amended. Whenever the new plan's price is not strictly greater than the
  current plan's price the upgrade fails with nothing changed: no plan change, no
  charge. In particular, after an upgrade has succeeded, the upgrade back to the plan
  the subscription had before is rejected, with nothing changed.
\<close>

theorem upgrade_requires_higher_price:
  "(get_subscription w sid = Inr s \<and> subscription_plan w s = Some current_plan
      \<and> get_plan w new_plan_id = Inr new_plan \<and> price new_plan \<le> price current_plan
    \<longrightarrow> upgrade_subscription processor now sid new_plan_id w
          = (Inl (SubscriptionError ''New plan must be more expensive for upgrade''), w))
   \<and> (get_subscription w sid = Inr s
        \<and> upgrade_subscription processor now sid new_plan_id w = (Inr r, w')
    \<longrightarrow> (\<exists>e. upgrade_subscription processor' now' sid (sub_plan_id s) w' = (Inl e, w')))"
proof (intro conjI impI)
  assume "get_subscription w sid = Inr s \<and> subscription_plan w s = Some current_plan
      \<and> get_plan w new_plan_id = Inr new_plan \<and> price new_plan \<le> price current_plan"
  then show "upgrade_subscription processor now sid new_plan_id w
          = (Inl (SubscriptionError ''New plan must be more expensive for upgrade''), w)"
    by (simp add: upgrade_rejected)
next
  assume a: "get_subscription w sid = Inr s
        \<and> upgrade_subscription processor now sid new_plan_id w = (Inr r, w')"
  let ?s' = "s\<lparr>sub_plan_id := new_plan_id, retry_count := 0\<rparr>"
  from a upgrade_success_facts [of w sid s processor now new_plan_id r w']
  obtain cp np where f: "subscription_plan w s = Some cp" "get_plan w new_plan_id = Inr np"
    "price cp < price np" "plans w' = plans w" "get_subscription w' sid = Inr ?s'"
    by blast
  from f(2) have "find (\<lambda>q. plan_id q = new_plan_id) (plans w) = Some np"
    by (auto simp: get_plan_def split: option.splits if_splits)
  with f(4) have cur: "subscription_plan w' ?s' = Some np"
    by (simp add: subscription_plan_def)
  from f(1) f(4) have old: "find (\<lambda>q. plan_id q = sub_plan_id s) (plans w') = Some cp"
    by (simp add: subscription_plan_def)
  show "\<exists>e. upgrade_subscription processor' now' sid (sub_plan_id s) w' = (Inl e, w')"
  proof (cases "plan_is_active cp")
    case True
    with old have "get_plan w' (sub_plan_id s) = Inr cp" by (simp add: get_plan_def)
    with f(5) cur f(3) show ?thesis
      by (simp add: upgrade_subscription_def validate_upgrade_def)
  next
    case False
    with old have "get_plan w' (sub_plan_id s) = Inl (NotFound ''plan'')"
      by (simp add: get_plan_def)
    with f(5) show ?thesis by (simp add: upgrade_subscription_def)
  qed
qed


theorem upgrade_requires_higher_price_witness:
  "get_subscription (example_world [example_subscription 2 ''active'' 0]) 10
      = Inr (example_subscription 2 ''active'' 0)
   \<and> subscription_plan (example_world [example_subscription 2 ''active'' 0])
        (example_subscription 2 ''active'' 0) = Some plan_premium
   \<and> get_plan (example_world [example_subscription 2 ''active'' 0]) 1 = Inr plan_basic
   \<and> price plan_basic \<le> price plan_premium
   \<and> upgrade_subscription always_paid (timedelta_days 15) 10 1
        (example_world [example_subscription 2 ''active'' 0])
      = (Inl (SubscriptionError ''New plan must be more expensive for upgrade''),
         example_world [example_subscription 2 ''active'' 0])
   \<and> get_subscription (example_world [example_subscription 1 ''active'' 0]) 10
      = Inr (example_subscription 1 ''active'' 0)
   \<and> (\<exists>r w'. upgrade_subscription always_paid (timedelta_days 15) 10 2
                 (example_world [example_subscription 1 ''active'' 0]) = (Inr r, w')
          \<and> (\<exists>e. upgrade_subscription always_paid (timedelta_days 16) 10 1 w' = (Inl e, w')))"
proof -
  let ?W2 = "example_world [example_subscription 2 ''active'' 0]"
  let ?W1 = "example_world [example_subscription 1 ''active'' 0]"
  have g2: "get_subscription ?W2 10 = Inr (example_subscription 2 ''active'' 0)"
    by code_simp
  have p2: "subscription_plan ?W2 (example_subscription 2 ''active'' 0) = Some plan_premium"
    by code_simp
  have n2: "get_plan ?W2 1 = Inr plan_basic" by code_simp
  have le: "price plan_basic \<le> price plan_premium"
    by (simp add: plan_basic_def plan_premium_def example_plan_def)
  have g1: "get_subscription ?W1 10 = Inr (example_subscription 1 ''active'' 0)"
    by code_simp
  have s1: "sub_plan_id (example_subscription 1 ''active'' 0) = 1"
    by (simp add: example_subscription_def)
  have ok: "fst (upgrade_subscription always_paid (timedelta_days 15) 10 2 ?W1)
      = Inr \<lparr> ur_success = True, ur_subscription_id = 10, ur_transaction_id = Some 77,
              ur_prorated_amount = 50, ur_new_plan = ''Premium'' \<rparr>"
    by code_simp
  then obtain r w' where
    up: "upgrade_subscription always_paid (timedelta_days 15) 10 2 ?W1 = (Inr r, w')"
    by (cases "upgrade_subscription always_paid (timedelta_days 15) 10 2 ?W1") auto
  from upgrade_requires_higher_price [of "?W1" 10 "example_subscription 1 ''active'' 0"
      plan_basic 2 plan_premium always_paid "timedelta_days 15" r w'
      always_paid "timedelta_days 16"] g1 up s1
  have second: "\<exists>e. upgrade_subscription always_paid (timedelta_days 16) 10 1 w' = (Inl e, w')"
    by simp
  from upgrade_requires_higher_price [of "?W2" 10 "example_subscription 2 ''active'' 0"
      plan_premium 1 plan_basic always_paid "timedelta_days 15"] g2 p2 n2 le
  have rej: "upgrade_subscription always_paid (timedelta_days 15) 10 1 ?W2
      = (Inl (SubscriptionError ''New plan must be more expensive for upgrade''), ?W2)"
    by simp
  from g2 p2 n2 le rej g1 up second show ?thesis by blast
qed

section \<open>Properties of the cancellation\<close>

text \<open>
  Claim C8, as stated, fails for one of the two terminal states: the guard of the
  cancellation looks for \<open>cancelled\<close> only. An expired subscription passes it: the
  immediate cancellation goes on to the refund and the change of state, the
  cancellation at the end of the period sets the flag.
\<close>

theorem cancel_of_expired_subscription:
  "status (example_subscription 1 ''expired'' 0) = ''expired''
   \<and> fst (cancel_subscription (cancel_immediately_helper 20 True) cancel_at_period_end_helper
            10 True (example_world [example_subscription 1 ''expired'' 0]))
       = Inr \<lparr> cn_success = True, cn_subscription_id = 10, cn_refund = Some 20 \<rparr>
   \<and> refunds (snd (cancel_subscription (cancel_immediately_helper 20 True)
            cancel_at_period_end_helper
            10 True (example_world [example_subscription 1 ''expired'' 0]))) = [(10, 20)]
   \<and> map status (subscriptions (snd (cancel_subscription (cancel_immediately_helper 20 True)
            cancel_at_period_end_helper
            10 True (example_world [example_subscription 1 ''expired'' 0])))) = [''cancelled'']
   \<and> fst (cancel_subscription (cancel_immediately_helper 20 True) cancel_at_period_end_helper
            10 False (example_world [example_subscription 1 ''expired'' 0]))
       = Inr \<lparr> cn_success = True, cn_subscription_id = 10, cn_refund = None \<rparr>
   \<and> map cancel_at_period_end (subscriptions (snd (cancel_subscription
            (cancel_immediately_helper 20 True) cancel_at_period_end_helper
            10 False (example_world [example_subscription 1 ''expired'' 0])))) = [True]"
proof -
  let ?W = "example_world [example_subscription 1 ''expired'' 0]"
  have a: "status (example_subscription 1 ''expired'' 0) = ''expired''"
    by (simp add: example_subscription_def)
  have b: "fst (cancel_subscription (cancel_immediately_helper 20 True)
              cancel_at_period_end_helper 10 True ?W)
       = Inr \<lparr> cn_success = True, cn_subscription_id = 10, cn_refund = Some 20 \<rparr>"
    by code_simp
  have c: "refunds (snd (cancel_subscription (cancel_immediately_helper 20 True)
            cancel_at_period_end_helper 10 True ?W)) = [(10, 20)]"
    by code_simp
  have d: "map status (subscriptions (snd (cancel_subscription
            (cancel_immediately_helper 20 True) cancel_at_period_end_helper 10 True ?W)))
          = [''cancelled'']"
    by code_simp
  have e: "fst (cancel_subscription (cancel_immediately_helper 20 True)
              cancel_at_period_end_helper 10 False ?W)
       = Inr \<lparr> cn_success = True, cn_subscription_id = 10, cn_refund = None \<rparr>"
    by code_simp
  have f: "map cancel_at_period_end (subscriptions (snd (cancel_subscription
            (cancel_immediately_helper 20 True) cancel_at_period_end_helper 10 False ?W)))
          = [True]"
    by code_simp
  from a b c d e f show ?thesis by simp
qed

text \<open>
  Claim C8, amended. The cancellation of a subscription that is already cancelled
  fails, whatever the helpers are, with no change of state and no refund. In
  particular, after an immediate cancellation has succeeded (one refund recorded), a
  second cancellation fails and leaves everything as it is.
\<close>

theorem cancel_rejects_cancelled:
  "(get_subscription w sid = Inr s \<and> status s = ''cancelled''
    \<longrightarrow> cancel_subscription helper_now helper_later sid immediate w
          = (Inl (SubscriptionError ''Subscription already cancelled''), w))
   \<and> (get_subscription w sid = Inr s
        \<and> cancel_subscription (cancel_immediately_helper refund_amount gateway_ok)
              at_period_end sid True w = (Inr r, w')
    \<longrightarrow> refunds w' = refunds w @ [(sid, refund_amount)]
        \<and> cancel_subscription immediately' at_period_end' sid immediate' w'
            = (Inl (SubscriptionError ''Subscription already cancelled''), w'))"
proof (rule conjI)
  show "get_subscription w sid = Inr s \<and> status s = ''cancelled''
    \<longrightarrow> cancel_subscription helper_now helper_later sid immediate w
          = (Inl (SubscriptionError ''Subscription already cancelled''), w)"
    by (simp add: cancel_subscription_def)
next
  show "get_subscription w sid = Inr s
        \<and> cancel_subscription (cancel_immediately_helper refund_amount gateway_ok)
              at_period_end sid True w = (Inr r, w')
    \<longrightarrow> refunds w' = refunds w @ [(sid, refund_amount)]
        \<and> cancel_subscription immediately' at_period_end' sid immediate' w'
            = (Inl (SubscriptionError ''Subscription already cancelled''), w')"
  proof (rule impI)
    assume a: "get_subscription w sid = Inr s
        \<and> cancel_subscription (cancel_immediately_helper refund_amount gateway_ok)
              at_period_end sid True w = (Inr r, w')"
    then have sub: "get_subscription w sid = Inr s" by simp
    then have sid: "sub_id s = sid" by (rule get_subscription_sub_id)
    let ?s' = "s\<lparr>status := ''cancelled''\<rparr>"
    from a have "cancel_subscription (cancel_immediately_helper refund_amount gateway_ok)
              at_period_end sid True w = (Inr r, w')" by simp
    with sub
    have helper: "cancel_immediately_helper refund_amount gateway_ok s w = (Inr r, w')"
      by (simp add: cancel_subscription_def split: if_splits)
    then have w': "w' = (update_subscription ?s' w)
                          \<lparr>refunds := refunds w @ [(sid, refund_amount)]\<rparr>"
      by (simp add: cancel_immediately_helper_def sid split: if_splits)
    have upd: "get_subscription (update_subscription ?s' w) sid = Inr ?s'"
      using sub by (rule get_subscription_after_update) (simp add: sid)
    have same: "subscriptions w' = subscriptions (update_subscription ?s' w)"
      by (simp add: w')
    from upd have "get_subscription w' sid = Inr ?s'"
      by (simp only: get_subscription_cong [OF same])
    then have "cancel_subscription immediately' at_period_end' sid immediate' w'
            = (Inl (SubscriptionError ''Subscription already cancelled''), w')"
      by (simp add: cancel_subscription_def)
    moreover have "refunds w' = refunds w @ [(sid, refund_amount)]"
      by (simp add: w' update_subscription_def)
    ultimately show "refunds w' = refunds w @ [(sid, refund_amount)]
        \<and> cancel_subscription immediately' at_period_end' sid immediate' w'
            = (Inl (SubscriptionError ''Subscription already cancelled''), w')"
      by simp
  qed
qed

theorem cancel_rejects_cancelled_witness:
  "get_subscription (example_world [example_subscription 1 ''cancelled'' 0]) 10
      = Inr (example_subscription 1 ''cancelled'' 0)
   \<and> status (example_subscription 1 ''cancelled'' 0) = ''cancelled''
   \<and> cancel_subscription (cancel_immediately_helper 20 True) cancel_at_period_end_helper
        10 True (example_world [example_subscription 1 ''cancelled'' 0])
      = (Inl (SubscriptionError ''Subscription already cancelled''),
         example_world [example_subscription 1 ''cancelled'' 0])
   \<and> get_subscription (example_world [example_subscription 1 ''active'' 0]) 10
      = Inr (example_subscription 1 ''active'' 0)
   \<and> (\<exists>r w'. cancel_subscription (cancel_immediately_helper 20 True)
                 cancel_at_period_end_helper 10 True
                 (example_world [example_subscription 1 ''active'' 0]) = (Inr r, w')
          \<and> refunds w' = [(10, 20)]
          \<and> cancel_subscription (cancel_immediately_helper 20 True)
               cancel_at_period_end_helper 10 True w'
             = (Inl (SubscriptionError ''Subscription already cancelled''), w'))"
proof -
  let ?Wc = "example_world [example_subscription 1 ''cancelled'' 0]"
  let ?Wa = "example_world [example_subscription 1 ''active'' 0]"
  have gc: "get_subscription ?Wc 10 = Inr (example_subscription 1 ''cancelled'' 0)"
    by code_simp
  have sc: "status (example_subscription 1 ''cancelled'' 0) = ''cancelled''"
    by (simp add: example_subscription_def)
  have ga: "get_subscription ?Wa 10 = Inr (example_subscription 1 ''active'' 0)"
    by code_simp
  have ra: "refunds ?Wa = []" by (simp add: example_world_def)
  have first: "fst (cancel_subscription (cancel_immediately_helper 20 True)
                 cancel_at_period_end_helper 10 True ?Wa)
       = Inr \<lparr> cn_success = True, cn_subscription_id = 10, cn_refund = Some 20 \<rparr>"
    by code_simp
  then obtain r w' where
    ok: "cancel_subscription (cancel_immediately_helper 20 True)
           cancel_at_period_end_helper 10 True ?Wa = (Inr r, w')"
    by (cases "cancel_subscription (cancel_immediately_helper 20 True)
                 cancel_at_period_end_helper 10 True ?Wa") auto
  from cancel_rejects_cancelled [of "?Wa" 10 "example_subscription 1 ''active'' 0"
      "cancel_immediately_helper 20 True" cancel_at_period_end_helper True
      20 True cancel_at_period_end_helper r w'
      "cancel_immediately_helper 20 True" cancel_at_period_end_helper True] ga ok ra
  have second: "refunds w' = [(10, 20)]
     \<and> cancel_subscription (cancel_immediately_helper 20 True)
               cancel_at_period_end_helper 10 True w'
             = (Inl (SubscriptionError ''Subscription already cancelled''), w')"
    by simp
  from cancel_rejects_cancelled [THEN conjunct1, of "?Wc" 10
      "example_subscription 1 ''cancelled'' 0"
      "cancel_immediately_helper 20 True" cancel_at_period_end_helper True] gc sc
  have rej: "cancel_subscription (cancel_immediately_helper 20 True)
        cancel_at_period_end_helper 10 True ?Wc
      = (Inl (SubscriptionError ''Subscription already cancelled''), ?Wc)"
    by simp
  from gc sc rej ga ok second show ?thesis by blast
qed

section \<open>Properties of the billing engine\<close>

text \<open>
  What the handler for insufficient funds does: the counter is incremented first; at the
  plan's limit the subscription is cancelled and no retry is scheduled, below it a retry
  is scheduled \<open>2 ^ (retry_count - 1)\<close> days from now, \<open>retry_count\<close> being the
  incremented counter.
\<close>

lemma subscription_plan_after_update:
  "sub_plan_id s' = sub_plan_id s \<Longrightarrow>
   subscription_plan (update_subscription s'' w) s' = subscription_plan w s"
  by (simp add: subscription_plan_def)

lemma handle_insufficient_funds_cancels:
  assumes "subscription_plan w s = Some p"
    and "max_retries p \<le> int (retry_count s) + 1"
  shows "handle_insufficient_funds now s w =
           (Inr ((failure_result (sub_id s) ''Subscription cancelled due to non-payment'')
                   \<lparr>br_cancelled := Some True\<rparr>),
            update_subscription (s\<lparr>retry_count := retry_count s + 1, status := ''cancelled''\<rparr>)
              (update_subscription (s\<lparr>retry_count := retry_count s + 1\<rparr>) w))"
  using assms
  by (simp add: handle_insufficient_funds_def Let_def cancel_subscription_for_non_payment_def
      subscription_plan_after_update [of _ s])

lemma handle_insufficient_funds_retries:
  assumes "subscription_plan w s = Some p"
    and "int (retry_count s) + 1 < max_retries p"
  shows "handle_insufficient_funds now s w =
           (Inr ((failure_result (sub_id s) ''Insufficient funds'')
                   \<lparr>br_retry_scheduled := Some (now + timedelta_days (2 ^ retry_count s)),
                    br_retry_count := Some (retry_count s + 1)\<rparr>),
            send_payment_failed_notification (user_id s)
              (s\<lparr>retry_count := retry_count s + 1\<rparr>) ''insufficient_funds''
              (schedule_retry (sub_id s) (now + timedelta_days (2 ^ retry_count s))
                 (update_subscription (s\<lparr>retry_count := retry_count s + 1\<rparr>) w)))"
  using assms
  by (simp add: handle_insufficient_funds_def Let_def retry_config_def
      subscription_plan_after_update [of _ s])

text \<open>
  The counter after the handler: one more than before, within the plan's limit when it
  was below the limit before, and at the limit the subscription is cancelled with no
  retry scheduled.
\<close>

lemma scheduled_retries_update_subscription [simp]:
  "scheduled_retries (update_subscription s w) = scheduled_retries w"
  by (simp add: update_subscription_def)

lemma retry_count_after_insufficient_funds:
  assumes sub: "get_subscription w (sub_id s) = Inr s"
    and pl: "subscription_plan w s = Some p"
    and run: "handle_insufficient_funds now s w = (res, w')"
  shows "\<exists>s'. get_subscription w' (sub_id s) = Inr s'
           \<and> retry_count s' = retry_count s + 1
           \<and> (int (retry_count s) < max_retries p \<longrightarrow> int (retry_count s') \<le> max_retries p)
           \<and> (max_retries p \<le> int (retry_count s')
                \<longrightarrow> status s' = ''cancelled'' \<and> scheduled_retries w' = scheduled_retries w)
           \<and> (int (retry_count s') < max_retries p
                \<longrightarrow> status s' = status s
                    \<and> scheduled_retries w' = scheduled_retries w
                         @ [(sub_id s, now + timedelta_days (2 ^ (retry_count s' - 1)))])"
proof -
  let ?s1 = "s\<lparr>retry_count := retry_count s + 1\<rparr>"
  let ?w1 = "update_subscription ?s1 w"
  have g1: "get_subscription ?w1 (sub_id s) = Inr ?s1"
    using sub by (rule get_subscription_after_update) simp
  show ?thesis
  proof (cases "max_retries p \<le> int (retry_count s) + 1")
    case True
    let ?s2 = "s\<lparr>retry_count := retry_count s + 1, status := ''cancelled''\<rparr>"
    from handle_insufficient_funds_cancels [OF pl True, of now] run
    have w': "w' = update_subscription ?s2 ?w1" by simp
    have "get_subscription (update_subscription ?s2 ?w1) (sub_id s) = Inr ?s2"
      using g1 by (rule get_subscription_after_update) simp
    with w' True show ?thesis by simp
  next
    case False
    then have lt: "int (retry_count s) + 1 < max_retries p" by simp
    let ?d = "now + timedelta_days (2 ^ retry_count s)"
    from handle_insufficient_funds_retries [OF pl lt, of now] run
    have w': "w' = send_payment_failed_notification (user_id s) ?s1 ''insufficient_funds''
                     (schedule_retry (sub_id s) ?d ?w1)"
      by simp
    then have same: "subscriptions w' = subscriptions ?w1"
      by (simp add: send_payment_failed_notification_def schedule_retry_def)
    from g1 have "get_subscription w' (sub_id s) = Inr ?s1"
      by (simp only: get_subscription_cong [OF same])
    moreover from w' have "scheduled_retries w' = scheduled_retries w @ [(sub_id s, ?d)]"
      by (simp add: send_payment_failed_notification_def schedule_retry_def
          send_notification_def)
    ultimately show ?thesis using lt by simp
  qed
qed

text \<open>
  Claim C3. The claim says that the retry is scheduled at
  \<open>now + 1 day \<cdot> 2 ^ (retry_count - 1)\<close>, capped at 24 days. The code computes the power
  and never applies \<open>max_delay\<close>, which its own retry configuration sets to 24: on a
  plan that allows 10 retries, the sixth failure for lack of funds schedules the retry
  32 days from now.
\<close>

theorem retry_delay_not_capped:
  "fst (process_subscription_payment no_funds 0 (example_subscription 4 ''active'' 5)
          (example_world [example_subscription 4 ''active'' 5]))
     = (failure_result 10 ''Insufficient funds'')
         \<lparr>br_retry_scheduled := Some (timedelta_days 32), br_retry_count := Some 6\<rparr>
   \<and> scheduled_retries (snd (process_subscription_payment no_funds 0
          (example_subscription 4 ''active'' 5)
          (example_world [example_subscription 4 ''active'' 5])))
     = [(10, timedelta_days 32)]
   \<and> max_delay retry_config = 24
   \<and> 0 + timedelta_days 24 < timedelta_days 32"
proof -
  let ?S = "example_subscription 4 ''active'' 5"
  have a: "fst (process_subscription_payment no_funds 0 ?S (example_world [?S]))
     = (failure_result 10 ''Insufficient funds'')
         \<lparr>br_retry_scheduled := Some (timedelta_days 32), br_retry_count := Some 6\<rparr>"
    by code_simp
  have b: "scheduled_retries (snd (process_subscription_payment no_funds 0 ?S
             (example_world [?S]))) = [(10, timedelta_days 32)]"
    by code_simp
  have c: "max_delay retry_config = 24" by (simp add: retry_config_def)
  have d: "0 + timedelta_days 24 < timedelta_days 32" by (simp add: timedelta_days_def)
  from a b c d show ?thesis by simp
qed

section \<open>Properties of the billing batch\<close>

lemma process_subscription_payment_id:
  "br_subscription_id (fst (process_subscription_payment processor now s w)) = sub_id s"
proof (cases "subscription_plan w s")
  case None
  then show ?thesis
    by (simp add: process_subscription_payment_def acquire_lock_def failure_result_def)
next
  case (Some p)
  let ?call = "\<lparr> pc_user_id = user_id s, pc_amount = price p,
                 pc_payment_method_id = payment_method_id s,
                 pc_description = ''Auto-renewal of '' @ plan_name p \<rparr>"
  let ?w1 = "w\<lparr>payment_calls := payment_calls w @ [?call]\<rparr>"
  have hif: "br_subscription_id
      (fst (case handle_insufficient_funds now s ?w1 of
              (Inl e, w2) \<Rightarrow> (failure_result (sub_id s) (error_text e), w2)
            | (Inr r, w2) \<Rightarrow> (r, w2))) = sub_id s"
    by (simp add: handle_insufficient_funds_def Let_def failure_result_def
        split: option.splits)
  show ?thesis
  proof (cases "processor ?call")
    case (Inr t)
    with Some show ?thesis
      by (simp add: process_subscription_payment_def acquire_lock_def process_payment_def
          Let_def)
  next
    case (Inl e)
    with Some hif show ?thesis
      by (cases e)
        (simp_all add: process_subscription_payment_def acquire_lock_def
          process_payment_def handle_payment_error_def failure_result_def)
  qed
qed

lemma untouched_by_helpers [simp]:
  "plans (schedule_retry sid d w) = plans w"
  "plans (send_admin_alert k sid uid m w) = plans w"
  "plans (cancel_subscription_for_non_payment s w) = plans w"
  "plans (extend_subscription s d w) = plans w"
  "plans (send_payment_failed_notification uid s reason w) = plans w"
  "payment_calls (update_subscription s w) = payment_calls w"
  "payment_calls (send_notification n w) = payment_calls w"
  "payment_calls (schedule_retry sid d w) = payment_calls w"
  "payment_calls (send_admin_alert k sid uid m w) = payment_calls w"
  "payment_calls (cancel_subscription_for_non_payment s w) = payment_calls w"
  "payment_calls (extend_subscription s d w) = payment_calls w"
  "payment_calls (send_payment_failed_notification uid s reason w) = payment_calls w"
  by (simp_all add: schedule_retry_def send_admin_alert_def
      cancel_subscription_for_non_payment_def extend_subscription_def
      send_payment_failed_notification_def update_subscription_def send_notification_def)

lemma handle_insufficient_funds_untouched:
  "plans (snd (handle_insufficient_funds now s w)) = plans w"
  "payment_calls (snd (handle_insufficient_funds now s w)) = payment_calls w"
  "br_success (case fst (handle_insufficient_funds now s w) of
                 Inl e \<Rightarrow> failure_result (sub_id s) (error_text e) | Inr r \<Rightarrow> r) = False"
  by (simp_all add: handle_insufficient_funds_def Let_def failure_result_def
      split: option.splits)

lemma process_subscription_payment_effects:
  "plans (snd (process_subscription_payment processor now s w)) = plans w
   \<and> payment_calls (snd (process_subscription_payment processor now s w))
       = payment_calls w @ charges_due w [s]
   \<and> br_success (fst (process_subscription_payment processor now s w))
       = charge_succeeds processor w s"
proof (cases "subscription_plan w s")
  case None
  then show ?thesis
    by (simp add: process_subscription_payment_def acquire_lock_def failure_result_def
        charges_due_def charge_succeeds_def)
next
  case (Some p)
  let ?w1 = "w\<lparr>payment_calls := payment_calls w @ [renewal_call p s]\<rparr>"
  obtain res w2 where h: "handle_insufficient_funds now s ?w1 = (res, w2)"
    by (cases "handle_insufficient_funds now s ?w1")
  from handle_insufficient_funds_untouched [where now = now and s = s and w = "?w1"] h
  have hf: "plans w2 = plans w" "payment_calls w2 = payment_calls w @ [renewal_call p s]"
    "br_success (case res of Inl e \<Rightarrow> failure_result (sub_id s) (error_text e) | Inr r \<Rightarrow> r)
       = False"
    by simp_all
  show ?thesis
  proof (cases "processor (renewal_call p s)")
    case (Inr t)
    with Some show ?thesis
      by (simp add: process_subscription_payment_def acquire_lock_def process_payment_def
          Let_def charges_due_def charge_succeeds_def renewal_call_def)
  next
    case (Inl e)
    with Some h hf show ?thesis
      by (cases e; cases res)
        (simp_all add: process_subscription_payment_def acquire_lock_def
          process_payment_def handle_payment_error_def failure_result_def
          charges_due_def charge_succeeds_def renewal_call_def)
  qed
qed

lemma same_plans:
  assumes "plans w1 = plans w"
  shows "charges_due w1 ss = charges_due w ss"
    and "charge_succeeds processor w1 s = charge_succeeds processor w s"
  using assms by (simp_all add: charges_due_def charge_succeeds_def subscription_plan_def)

lemma charges_due_remove1:
  "s \<in> set ss \<Longrightarrow>
   mset (charges_due w ss) = mset (charges_due w [s]) + mset (charges_due w (remove1 s ss))"
  by (induction ss) (auto simp: charges_due_def)

lemma map_remove1_mset:
  "s \<in> set ss \<Longrightarrow> mset (map f ss) = add_mset (f s) (mset (map f (remove1 s ss)))"
  by (induction ss) auto

lemma batch_run_exists: "\<exists>rs w'. batch_run processor now ss w rs w'"
proof (induction ss arbitrary: w)
  case Nil
  show ?case by (blast intro: batch_done)
next
  case (Cons s ss)
  obtain r w1 where step: "process_subscription_payment processor now s w = (r, w1)"
    by (cases "process_subscription_payment processor now s w")
  from Cons.IH [of w1] obtain rs w2 where "batch_run processor now ss w1 rs w2" by blast
  then have "batch_run processor now (remove1 s (s # ss)) w1 rs w2" by simp
  with step have "batch_run processor now (s # ss) w (r # rs) w2"
    by (intro batch_next [of s]) simp_all
  then show ?case by blast
qed

lemma batch_run_outcomes:
  assumes "batch_run processor now ss w rs w'"
  shows "plans w' = plans w
       \<and> mset (map (\<lambda>r. (br_subscription_id r, br_success r)) rs)
           = mset (map (\<lambda>s. (sub_id s, charge_succeeds processor w s)) ss)
       \<and> mset (payment_calls w') = mset (payment_calls w) + mset (charges_due w ss)"
  using assms
proof (induction rule: batch_run.induct)
  case (batch_done w)
  show ?case by (simp add: charges_due_def)
next
  case (batch_next s pending w r w1 rs w2)
  from process_subscription_payment_effects [of processor now s w] batch_next.hyps(2)
  have eff: "plans w1 = plans w" "payment_calls w1 = payment_calls w @ charges_due w [s]"
    "br_success r = charge_succeeds processor w s"
    by simp_all
  from process_subscription_payment_id [of processor now s w] batch_next.hyps(2)
  have rid: "br_subscription_id r = sub_id s" by simp
  from batch_next.IH have ih: "plans w2 = plans w1"
    "mset (map (\<lambda>r. (br_subscription_id r, br_success r)) rs)
       = mset (map (\<lambda>s. (sub_id s, charge_succeeds processor w1 s)) (remove1 s pending))"
    "mset (payment_calls w2)
       = mset (payment_calls w1) + mset (charges_due w1 (remove1 s pending))"
    by simp_all
  have p: "plans w2 = plans w" using ih(1) eff(1) by simp
  have c: "mset (payment_calls w2) = mset (payment_calls w) + mset (charges_due w pending)"
    using ih(3) eff(2) same_plans(1) [OF eff(1)] charges_due_remove1 [OF batch_next.hyps(1), of w]
    by simp
  have "(\<lambda>s. (sub_id s, charge_succeeds processor w1 s))
          = (\<lambda>s. (sub_id s, charge_succeeds processor w s))"
    using same_plans(2) [OF eff(1)] by auto
  with ih(2) have "mset (map (\<lambda>r. (br_subscription_id r, br_success r)) rs)
       = mset (map (\<lambda>s. (sub_id s, charge_succeeds processor w s)) (remove1 s pending))"
    by simp
  then have o: "mset (map (\<lambda>r. (br_subscription_id r, br_success r)) (r # rs))
       = mset (map (\<lambda>s. (sub_id s, charge_succeeds processor w s)) pending)"
    using map_remove1_mset [OF batch_next.hyps(1),
        of "\<lambda>s. (sub_id s, charge_succeeds processor w s)"] rid eff(3)
    by simp
  from p o c show ?case by blast
qed

lemma batch_step:
  "s \<in> set pending \<Longrightarrow>
   batch_run processor now (remove1 s pending)
     (snd (process_subscription_payment processor now s w)) rs w2 \<Longrightarrow>
   batch_run processor now pending w
     (fst (process_subscription_payment processor now s w) # rs) w2"
  by (rule batch_next [where s = s
        and ?w1.0 = "snd (process_subscription_payment processor now s w)"]) simp_all

text \<open>
  Claim C7, as stated, fails in one point: the handler for a gateway error schedules
  no retry. After a gateway timeout on day 35 the retry schedule is empty; in
  particular it holds no retry one hour later.
\<close>

theorem gateway_error_schedules_no_retry:
  "fst (process_subscription_payment gateway_down (timedelta_days 35)
          (example_subscription 1 ''active'' 0)
          (example_world [example_subscription 1 ''active'' 0]))
     = failure_result 10 ''Payment gateway error: timeout''
   \<and> scheduled_retries (snd (process_subscription_payment gateway_down (timedelta_days 35)
          (example_subscription 1 ''active'' 0)
          (example_world [example_subscription 1 ''active'' 0]))) = []
   \<and> (10, timedelta_days 35 + timedelta_hours 1)
        \<notin> set (scheduled_retries (snd (process_subscription_payment gateway_down
                  (timedelta_days 35) (example_subscription 1 ''active'' 0)
                  (example_world [example_subscription 1 ''active'' 0]))))"
proof -
  let ?S = "example_subscription 1 ''active'' 0"
  have a: "fst (process_subscription_payment gateway_down (timedelta_days 35) ?S
                 (example_world [?S]))
     = failure_result 10 ''Payment gateway error: timeout''"
    by code_simp
  have b: "scheduled_retries (snd (process_subscription_payment gateway_down
             (timedelta_days 35) ?S (example_world [?S]))) = []"
    by code_simp
  from a b show ?thesis by simp
qed

text \<open>
  Claim C7, amended. When the charge of a subscription fails with a gateway error, the
  subscriptions are left as they are (so is the retry counter), the retry schedule is
  left as it is, one admin alert is raised, and the result for the subscription reports
  the failure. The batch goes on: in whatever order the workers complete, the run
  returns one result for every subscription handed to it, failed exactly where the
  subscription's own charge fails, and the processor is asked for the charge of every
  one of them, those of the failed ones' neighbours included; and a run exists.
\<close>

theorem gateway_error_handling:
  "(subscription_plan w s = Some p
      \<and> processor \<lparr> pc_user_id = user_id s, pc_amount = price p,
                     pc_payment_method_id = payment_method_id s,
                     pc_description = ''Auto-renewal of '' @ plan_name p \<rparr>
          = Inl (PaymentProcessingError m)
      \<and> process_subscription_payment processor now s w = (r, w')
    \<longrightarrow> subscriptions w' = subscriptions w
        \<and> scheduled_retries w' = scheduled_retries w
        \<and> admin_alerts w' = admin_alerts w
             @ [\<lparr> aa_kind = ''payment_gateway_error'', aa_subscription_id = sub_id s,
                   aa_user_id = user_id s, aa_error = m \<rparr>]
        \<and> r = failure_result (sub_id s) (''Payment gateway error: '' @ m)
        \<and> br_success r = False)
   \<and> (batch_run processor now ss w0 rs w1
    \<longrightarrow> mset (map (\<lambda>r. (br_subscription_id r, br_success r)) rs)
          = mset (map (\<lambda>s. (sub_id s, charge_succeeds processor w0 s)) ss)
        \<and> mset (payment_calls w1) = mset (payment_calls w0) + mset (charges_due w0 ss))
   \<and> (\<exists>rs w1. batch_run processor now ss w0 rs w1)"
proof (rule conjI)
  show "subscription_plan w s = Some p
      \<and> processor \<lparr> pc_user_id = user_id s, pc_amount = price p,
                     pc_payment_method_id = payment_method_id s,
                     pc_description = ''Auto-renewal of '' @ plan_name p \<rparr>
          = Inl (PaymentProcessingError m)
      \<and> process_subscription_payment processor now s w = (r, w')
    \<longrightarrow> subscriptions w' = subscriptions w
        \<and> scheduled_retries w' = scheduled_retries w
        \<and> admin_alerts w' = admin_alerts w
             @ [\<lparr> aa_kind = ''payment_gateway_error'', aa_subscription_id = sub_id s,
                   aa_user_id = user_id s, aa_error = m \<rparr>]
        \<and> r = failure_result (sub_id s) (''Payment gateway error: '' @ m)
        \<and> br_success r = False"
    by (auto simp: process_subscription_payment_def acquire_lock_def process_payment_def
        handle_payment_error_def send_admin_alert_def failure_result_def)
next
  show "(batch_run processor now ss w0 rs w1
    \<longrightarrow> mset (map (\<lambda>r. (br_subscription_id r, br_success r)) rs)
          = mset (map (\<lambda>s. (sub_id s, charge_succeeds processor w0 s)) ss)
        \<and> mset (payment_calls w1) = mset (payment_calls w0) + mset (charges_due w0 ss))
   \<and> (\<exists>rs w1. batch_run processor now ss w0 rs w1)"
    using batch_run_outcomes [of processor now ss w0 rs w1]
      batch_run_exists [of processor now ss w0]
    by blast
qed

text \<open>
  An instance: the single subscription of the example behind a gateway that is down,
  and a batch of three subscriptions of which the one of user 1 meets a gateway error:
  the workers completing in the order 12, 10, 11, the other two are charged and renewed.
\<close>

theorem gateway_error_handling_witness:
  "subscription_plan (example_world [example_subscription 1 ''active'' 0])
       (example_subscription 1 ''active'' 0) = Some plan_basic
   \<and> gateway_down \<lparr> pc_user_id = user_id (example_subscription 1 ''active'' 0),
                     pc_amount = price plan_basic,
                     pc_payment_method_id = payment_method_id (example_subscription 1 ''active'' 0),
                     pc_description = ''Auto-renewal of '' @ plan_name plan_basic \<rparr>
       = Inl (PaymentProcessingError ''timeout'')
   \<and> subscriptions (snd (process_subscription_payment gateway_down (timedelta_days 35)
          (example_subscription 1 ''active'' 0)
          (example_world [example_subscription 1 ''active'' 0])))
       = [example_subscription 1 ''active'' 0]
   \<and> map aa_kind (admin_alerts (snd (process_subscription_payment gateway_down
          (timedelta_days 35) (example_subscription 1 ''active'' 0)
          (example_world [example_subscription 1 ''active'' 0]))))
       = [''payment_gateway_error'']
   \<and> br_success (fst (process_subscription_payment gateway_down (timedelta_days 35)
          (example_subscription 1 ''active'' 0)
          (example_world [example_subscription 1 ''active'' 0]))) = False
   \<and> (\<exists>rs w1.
         process_recurring_payments (down_for_user 1) (timedelta_days 35)
           (example_world [example_subscription_of 10 1, example_subscription_of 11 2,
                           example_subscription_of 12 3]) rs w1
       \<and> map (\<lambda>r. (br_subscription_id r, br_success r)) rs
           = [(12, True), (10, False), (11, True)]
       \<and> mset (payment_calls w1)
           = mset [renewal_call plan_basic (example_subscription_of 10 1),
                   renewal_call plan_basic (example_subscription_of 11 2),
                   renewal_call plan_basic (example_subscription_of 12 3)])"
proof -
  let ?S = "example_subscription 1 ''active'' 0"
  let ?W = "example_world [?S]"
  have p: "subscription_plan ?W ?S = Some plan_basic" by code_simp
  have g: "gateway_down \<lparr> pc_user_id = user_id ?S, pc_amount = price plan_basic,
                     pc_payment_method_id = payment_method_id ?S,
                     pc_description = ''Auto-renewal of '' @ plan_name plan_basic \<rparr>
       = Inl (PaymentProcessingError ''timeout'')"
    by (simp add: gateway_down_def)
  have w: "subscriptions ?W = [?S]" "admin_alerts ?W = []"
    by (simp_all add: example_world_def)
  obtain r w' where
    run: "process_subscription_payment gateway_down (timedelta_days 35) ?S ?W = (r, w')"
    by (cases "process_subscription_payment gateway_down (timedelta_days 35) ?S ?W")
  from gateway_error_handling [THEN conjunct1, of "?W" "?S" plan_basic gateway_down
      "''timeout''" "timedelta_days 35" r w'] p g run w
  have single: "subscriptions w' = [?S]"
    "admin_alerts w' = [\<lparr> aa_kind = ''payment_gateway_error'', aa_subscription_id = sub_id ?S,
                   aa_user_id = user_id ?S, aa_error = ''timeout'' \<rparr>]"
    "br_success r = False"
    by (simp_all add: failure_result_def)
  let ?a = "example_subscription_of 10 1"
  let ?b = "example_subscription_of 11 2"
  let ?c = "example_subscription_of 12 3"
  let ?B = "example_world [?a, ?b, ?c]"
  let ?pr = "down_for_user 1"
  let ?now = "timedelta_days 35"
  define r1 where "r1 = fst (process_subscription_payment ?pr ?now ?c ?B)"
  define v1 where "v1 = snd (process_subscription_payment ?pr ?now ?c ?B)"
  define r2 where "r2 = fst (process_subscription_payment ?pr ?now ?a v1)"
  define v2 where "v2 = snd (process_subscription_payment ?pr ?now ?a v1)"
  define r3 where "r3 = fst (process_subscription_payment ?pr ?now ?b v2)"
  define v3 where "v3 = snd (process_subscription_payment ?pr ?now ?b v2)"
  have ne: "?a \<noteq> ?c" "?b \<noteq> ?c" "?a \<noteq> ?b"
    by (simp_all add: example_subscription_of_def example_subscription_def)
  have "batch_run ?pr ?now (remove1 ?b [?b]) v3 [] v3"
    by (simp add: batch_done)
  then have "batch_run ?pr ?now [?b] v2 [r3] v3"
    unfolding r3_def v3_def by (rule batch_step [rotated]) simp
  with ne have "batch_run ?pr ?now (remove1 ?a [?a, ?b]) v2 [r3] v3" by simp
  then have "batch_run ?pr ?now [?a, ?b] v1 [r2, r3] v3"
    unfolding r2_def v2_def by (rule batch_step [rotated]) simp
  with ne have "batch_run ?pr ?now (remove1 ?c [?a, ?b, ?c]) v1 [r2, r3] v3" by simp
  then have batch: "batch_run ?pr ?now [?a, ?b, ?c] ?B [r1, r2, r3] v3"
    unfolding r1_def v1_def by (rule batch_step [rotated]) simp
  have due: "get_subscriptions_due_for_payment ?now ?B = [?a, ?b, ?c]" by code_simp
  from batch due have rec: "process_recurring_payments ?pr ?now ?B [r1, r2, r3] v3"
    by (simp add: process_recurring_payments_def)
  have cd: "charges_due ?B [?a, ?b, ?c]
      = [renewal_call plan_basic ?a, renewal_call plan_basic ?b, renewal_call plan_basic ?c]"
    by code_simp
  have cs: "charge_succeeds ?pr ?B ?a = False" "charge_succeeds ?pr ?B ?b = True"
    "charge_succeeds ?pr ?B ?c = True"
    by code_simp+
  have pc: "payment_calls ?B = []" by (simp add: example_world_def)
  have ids: "sub_id ?a = 10" "sub_id ?b = 11" "sub_id ?c = 12"
    by (simp_all add: example_subscription_of_def)
  from gateway_error_handling [THEN conjunct2, THEN conjunct1,
      of "?pr" "?now" "[?a, ?b, ?c]" "?B" "[r1, r2, r3]" v3] batch
  have outcome: "mset (map (\<lambda>r. (br_subscription_id r, br_success r)) [r1, r2, r3])
          = mset (map (\<lambda>s. (sub_id s, charge_succeeds ?pr ?B s)) [?a, ?b, ?c])"
    and calls: "mset (payment_calls v3) = mset (payment_calls ?B) + mset (charges_due ?B [?a, ?b, ?c])"
    by simp_all
  have e1: "(br_subscription_id r1, br_success r1) = (12, True)"
    using process_subscription_payment_id [of "?pr" "?now" "?c" "?B"]
      process_subscription_payment_effects [of "?pr" "?now" "?c" "?B"] cs ids
    by (simp add: r1_def)
  have pl1: "plans v1 = plans ?B"
    using process_subscription_payment_effects [of "?pr" "?now" "?c" "?B"]
    by (simp add: v1_def)
  have e2: "(br_subscription_id r2, br_success r2) = (10, False)"
    using process_subscription_payment_id [of "?pr" "?now" "?a" v1]
      process_subscription_payment_effects [of "?pr" "?now" "?a" v1]
      same_plans(2) [OF pl1, of "?pr" "?a"] cs ids
    by (simp add: r2_def)
  have pl2: "plans v2 = plans ?B"
    using process_subscription_payment_effects [of "?pr" "?now" "?a" v1] pl1
    by (simp add: v2_def)
  have e3: "(br_subscription_id r3, br_success r3) = (11, True)"
    using process_subscription_payment_id [of "?pr" "?now" "?b" v2]
      process_subscription_payment_effects [of "?pr" "?now" "?b" v2]
      same_plans(2) [OF pl2, of "?pr" "?b"] cs ids
    by (simp add: r3_def)
  from e1 e2 e3 have order: "map (\<lambda>r. (br_subscription_id r, br_success r)) [r1, r2, r3]
           = [(12, True), (10, False), (11, True)]"
    by simp
  from calls cd pc have total: "mset (payment_calls v3)
           = mset [renewal_call plan_basic ?a, renewal_call plan_basic ?b,
                   renewal_call plan_basic ?c]"
    by simp
  from rec order total have batch_example: "\<exists>rs w1.
         process_recurring_payments ?pr ?now ?B rs w1
       \<and> map (\<lambda>r. (br_subscription_id r, br_success r)) rs
           = [(12, True), (10, False), (11, True)]
       \<and> mset (payment_calls w1)
           = mset [renewal_call plan_basic ?a, renewal_call plan_basic ?b,
                   renewal_call plan_basic ?c]"
    by (intro exI [of _ "[r1, r2, r3]"] exI [of _ v3] conjI)
  from run single have
    "subscriptions (snd (process_subscription_payment gateway_down (timedelta_days 35) ?S ?W))
       = [?S]"
    "map aa_kind (admin_alerts (snd (process_subscription_payment gateway_down
          (timedelta_days 35) ?S ?W))) = [''payment_gateway_error'']"
    "br_success (fst (process_subscription_payment gateway_down (timedelta_days 35) ?S ?W))
       = False"
    by simp_all
  with p g batch_example show ?thesis by (intro conjI)
qed

end
